theory Spec2Isabelle
  imports Complex_Main "HOL-Library.Sublist"
begin

section \<open>JavaScript values shared by the handlers\<close>

text \<open>
  An awaited call either rejects (the \<open>await\<close> throws, with a description of the
  exception) or fulfils with a value.
\<close>

datatype 'a promise = Rejected string | Fulfilled 'a

text \<open>
  A number as \<open>JSON.parse\<close> gives it: a finite value, or an infinity for a literal
  beyond the range of the numbers, such as \<open>1e400\<close>.
\<close>

datatype number = Finite rat | Infinity | Minus_Infinity

text \<open>
  A parsed JSON value. The properties of an object are an association list; a key is
  looked up with \<open>map_of\<close>.
\<close>

datatype json =
    JNull
  | JBool bool
  | JNum number
  | JStr string
  | JArr "json list"
  | JObj "(string \<times> json) list"

text \<open>JavaScript truthiness of a JSON value.\<close>

fun truthy_json :: "json \<Rightarrow> bool" where
  "truthy_json JNull = False"
| "truthy_json (JBool b) = b"
| "truthy_json (JNum n) = (n \<noteq> Finite 0)"
| "truthy_json (JStr s) = (s \<noteq> [])"
| "truthy_json (JArr xs) = True"
| "truthy_json (JObj kvs) = True"

text \<open>Truthiness of a value that is a string or \<open>undefined\<close>/\<open>null\<close>.\<close>

definition truthy_string :: "string option \<Rightarrow> bool" where
  "truthy_string v = (case v of None \<Rightarrow> False | Some s \<Rightarrow> s \<noteq> [])"

text \<open>
  \<open>const { videoId } = body\<close>: destructuring \<open>null\<close> throws a TypeError, an object
  gives its property or \<open>undefined\<close>, and every other JSON value has no such property.
\<close>

fun destructure_videoId :: "json \<Rightarrow> string + json option" where
  "destructure_videoId JNull = Inl ''TypeError''"
| "destructure_videoId (JObj kvs) = Inr (map_of kvs ''videoId'')"
| "destructure_videoId (JBool b) = Inr None"
| "destructure_videoId (JNum n) = Inr None"
| "destructure_videoId (JStr s) = Inr None"
| "destructure_videoId (JArr xs) = Inr None"

text \<open>
  What a reader gets back from the text that \<open>JSON.stringify\<close> writes for a parsed
  value: the value itself, with every infinity, at any depth, written as \<open>null\<close>.
\<close>

primrec serialised :: "json \<Rightarrow> json" where
  "serialised JNull = JNull"
| "serialised (JBool b) = JBool b"
| "serialised (JNum n) =
     (case n of Finite r \<Rightarrow> JNum (Finite r) | Infinity \<Rightarrow> JNull | Minus_Infinity \<Rightarrow> JNull)"
| "serialised (JStr s) = JStr s"
| "serialised (JArr xs) = JArr (map serialised xs)"
| "serialised (JObj kvs) = JObj (map (map_prod id serialised) kvs)"


text \<open>
  \<open>String.prototype.replace\<close> with a string pattern: the first occurrence of the
  pattern is replaced, and a string without the pattern is returned as it is.
\<close>

fun replace :: "string \<Rightarrow> string \<Rightarrow> string \<Rightarrow> string" where
  "replace pat rep [] = (if pat = [] then rep else [])"
| "replace pat rep (c # cs) =
     (if prefix pat (c # cs) then rep @ drop (length pat) (c # cs)
      else c # replace pat rep cs)"

text \<open>
  Decimal rendering of an integer, as a template literal renders an integral number
  below \<open>10^21\<close> in absolute value; the millisecond clock stays far below.
\<close>

definition digit_char :: "nat \<Rightarrow> char" where
  "digit_char d = char_of (48 + d)"

fun string_of_nat :: "nat \<Rightarrow> string" where
  "string_of_nat n =
     (if n < 10 then [digit_char n]
      else string_of_nat (n div 10) @ [digit_char (n mod 10)])"

declare string_of_nat.simps [simp del]

definition string_of_int :: "int \<Rightarrow> string" where
  "string_of_int i =
     (if i < 0 then CHR ''-'' # string_of_nat (nat (- i)) else string_of_nat (nat i))"

text \<open>Rendering of a string-or-undefined value inside a template literal.\<close>

definition template_string :: "string option \<Rightarrow> string" where
  "template_string v = (case v of None \<Rightarrow> ''undefined'' | Some s \<Rightarrow> s)"

section \<open>The collaborators' data\<close>

text \<open>The identity provider's user: \<open>user.id\<close> and \<open>user.email\<close>.\<close>

record user =
  uid :: string
  email :: "string option"

text \<open>
  The result of \<open>auth.getUser\<close>, \<open>{ data: { user }, error }\<close>: each part is an object
  or \<open>null\<close>.
\<close>

record user_response =
  data_user :: "user option"
  user_error :: "string option"

text \<open>
  Modelled from the spec: the schema of the \<open>profiles\<close> table is not part of the source;
  the spec gives the entitlement record a boolean \<open>hasPaid\<close>, which is the only column
  the handlers select.
\<close>

record profile =
  has_paid :: bool

text \<open>The result of the \<open>profiles\<close> query ending in \<open>.single()\<close>: \<open>{ data, error }\<close>.\<close>

record profile_response =
  data_profile :: "profile option"
  profile_error :: "string option"

section \<open>Messages\<close>

text \<open>
  The texts of the source are Korean; they are given here as their UTF-8 bytes.
\<close>

definition msg_auth_required :: string where
  \<comment> \<open>route.ts line 50, in English: Authentication is required.\<close>
  "msg_auth_required =
     [CHR 0xEC, CHR 0x9D, CHR 0xB8, CHR 0xEC, CHR 0xA6, CHR 0x9D, CHR 0xEC, CHR 0x9D,
      CHR 0xB4, CHR 0x20, CHR 0xED, CHR 0x95, CHR 0x84, CHR 0xEC, CHR 0x9A, CHR 0x94,
      CHR 0xED, CHR 0x95, CHR 0xA9, CHR 0xEB, CHR 0x8B, CHR 0x88, CHR 0xEB, CHR 0x8B,
      CHR 0xA4, CHR 0x2E]"

definition msg_invalid_session :: string where
  \<comment> \<open>route.ts line 62, in English: The session is not valid.\<close>
  "msg_invalid_session =
     [CHR 0xEC, CHR 0x9C, CHR 0xA0, CHR 0xED, CHR 0x9A, CHR 0xA8, CHR 0xED, CHR 0x95,
      CHR 0x98, CHR 0xEC, CHR 0xA7, CHR 0x80, CHR 0x20, CHR 0xEC, CHR 0x95, CHR 0x8A,
      CHR 0xEC, CHR 0x9D, CHR 0x80, CHR 0x20, CHR 0xEC, CHR 0x84, CHR 0xB8, CHR 0xEC,
      CHR 0x85, CHR 0x98, CHR 0xEC, CHR 0x9E, CHR 0x85, CHR 0xEB, CHR 0x8B, CHR 0x88,
      CHR 0xEB, CHR 0x8B, CHR 0xA4, CHR 0x2E]"

definition msg_profile_not_found :: string where
  \<comment> \<open>route.ts line 76, in English: The profile information cannot be found.\<close>
  "msg_profile_not_found =
     [CHR 0xED, CHR 0x94, CHR 0x84, CHR 0xEB, CHR 0xA1, CHR 0x9C, CHR 0xED, CHR 0x95,
      CHR 0x84, CHR 0x20, CHR 0xEC, CHR 0xA0, CHR 0x95, CHR 0xEB, CHR 0xB3, CHR 0xB4,
      CHR 0xEB, CHR 0xA5, CHR 0xBC, CHR 0x20, CHR 0xEC, CHR 0xB0, CHR 0xBE, CHR 0xEC,
      CHR 0x9D, CHR 0x84, CHR 0x20, CHR 0xEC, CHR 0x88, CHR 0x98, CHR 0x20, CHR 0xEC,
      CHR 0x97, CHR 0x86, CHR 0xEC, CHR 0x8A, CHR 0xB5, CHR 0xEB, CHR 0x8B, CHR 0x88,
      CHR 0xEB, CHR 0x8B, CHR 0xA4, CHR 0x2E]"

definition msg_payment_required :: string where
  \<comment> \<open>route.ts line 83, in English: Payment is required.\<close>
  "msg_payment_required =
     [CHR 0xEA, CHR 0xB2, CHR 0xB0, CHR 0xEC, CHR 0xA0, CHR 0x9C, CHR 0xEA, CHR 0xB0,
      CHR 0x80, CHR 0x20, CHR 0xED, CHR 0x95, CHR 0x84, CHR 0xEC, CHR 0x9A, CHR 0x94,
      CHR 0xED, CHR 0x95, CHR 0xA9, CHR 0xEB, CHR 0x8B, CHR 0x88, CHR 0xEB, CHR 0x8B,
      CHR 0xA4, CHR 0x2E]"

definition msg_videoId_required :: string where
  \<comment> \<open>route.ts line 94, in English: videoId is required.\<close>
  "msg_videoId_required =
     [CHR 0x76, CHR 0x69, CHR 0x64, CHR 0x65, CHR 0x6F, CHR 0x49, CHR 0x64, CHR 0xEA,
      CHR 0xB0, CHR 0x80, CHR 0x20, CHR 0xED, CHR 0x95, CHR 0x84, CHR 0xEC, CHR 0x9A,
      CHR 0x94, CHR 0xED, CHR 0x95, CHR 0xA9, CHR 0xEB, CHR 0x8B, CHR 0x88, CHR 0xEB,
      CHR 0x8B, CHR 0xA4, CHR 0x2E]"

definition msg_token_failed :: string where
  \<comment> \<open>route.ts line 124, in English: Creating the token failed.\<close>
  "msg_token_failed =
     [CHR 0xED, CHR 0x86, CHR 0xA0, CHR 0xED, CHR 0x81, CHR 0xB0, CHR 0x20, CHR 0xEC,
      CHR 0x83, CHR 0x9D, CHR 0xEC, CHR 0x84, CHR 0xB1, CHR 0xEC, CHR 0x97, CHR 0x90,
      CHR 0x20, CHR 0xEC, CHR 0x8B, CHR 0xA4, CHR 0xED, CHR 0x8C, CHR 0xA8, CHR 0xED,
      CHR 0x96, CHR 0x88, CHR 0xEC, CHR 0x8A, CHR 0xB5, CHR 0xEB, CHR 0x8B, CHR 0x88,
      CHR 0xEB, CHR 0x8B, CHR 0xA4, CHR 0x2E]"

definition log_token_error :: string where
  \<comment> \<open>route.ts line 122, in English: Video token creation error:\<close>
  "log_token_error =
     [CHR 0xEB, CHR 0xB9, CHR 0x84, CHR 0xEB, CHR 0x94, CHR 0x94, CHR 0xEC, CHR 0x98,
      CHR 0xA4, CHR 0x20, CHR 0xED, CHR 0x86, CHR 0xA0, CHR 0xED, CHR 0x81, CHR 0xB0,
      CHR 0x20, CHR 0xEC, CHR 0x83, CHR 0x9D, CHR 0xEC, CHR 0x84, CHR 0xB1, CHR 0x20,
      CHR 0xEC, CHR 0x98, CHR 0xA4, CHR 0xEB, CHR 0xA5, CHR 0x98, CHR 0x3A]"

definition msg_login_required :: string where
  \<comment> \<open>handlePayment, line 80, in English: Login is required.\<close>
  "msg_login_required =
     [CHR 0xEB, CHR 0xA1, CHR 0x9C, CHR 0xEA, CHR 0xB7, CHR 0xB8, CHR 0xEC, CHR 0x9D,
      CHR 0xB8, CHR 0xEC, CHR 0x9D, CHR 0xB4, CHR 0x20, CHR 0xED, CHR 0x95, CHR 0x84,
      CHR 0xEC, CHR 0x9A, CHR 0x94, CHR 0xED, CHR 0x95, CHR 0xA9, CHR 0xEB, CHR 0x8B,
      CHR 0x88, CHR 0xEB, CHR 0x8B, CHR 0xA4, CHR 0x2E]"

definition msg_payment_failed_prefix :: string where
  \<comment> \<open>handlePayment, line 108, in English: Payment failed: (the gateway's message follows)\<close>
  "msg_payment_failed_prefix =
     [CHR 0xEA, CHR 0xB2, CHR 0xB0, CHR 0xEC, CHR 0xA0, CHR 0x9C, CHR 0x20, CHR 0xEC,
      CHR 0x8B, CHR 0xA4, CHR 0xED, CHR 0x8C, CHR 0xA8, CHR 0x3A, CHR 0x20]"

definition log_profile_update_error :: string where
  \<comment> \<open>handlePayment, line 124, in English: Profile update error:\<close>
  "log_profile_update_error =
     [CHR 0xED, CHR 0x94, CHR 0x84, CHR 0xEB, CHR 0xA1, CHR 0x9C, CHR 0xED, CHR 0x95,
      CHR 0x84, CHR 0x20, CHR 0xEC, CHR 0x97, CHR 0x85, CHR 0xEB, CHR 0x8D, CHR 0xB0,
      CHR 0xEC, CHR 0x9D, CHR 0xB4, CHR 0xED, CHR 0x8A, CHR 0xB8, CHR 0x20, CHR 0xEC,
      CHR 0x98, CHR 0xA4, CHR 0xEB, CHR 0xA5, CHR 0x98, CHR 0x3A]"

definition msg_paid_but_unrecorded :: string where
  \<comment> \<open>handlePayment, line 125, in English: The payment was completed but updating the profile failed. Please contact customer support.\<close>
  "msg_paid_but_unrecorded =
     [CHR 0xEA, CHR 0xB2, CHR 0xB0, CHR 0xEC, CHR 0xA0, CHR 0x9C, CHR 0xEB, CHR 0x8A,
      CHR 0x94, CHR 0x20, CHR 0xEC, CHR 0x99, CHR 0x84, CHR 0xEB, CHR 0xA3, CHR 0x8C,
      CHR 0xEB, CHR 0x90, CHR 0x98, CHR 0xEC, CHR 0x97, CHR 0x88, CHR 0xEC, CHR 0x9C,
      CHR 0xBC, CHR 0xEB, CHR 0x82, CHR 0x98, CHR 0x20, CHR 0xED, CHR 0x94, CHR 0x84,
      CHR 0xEB, CHR 0xA1, CHR 0x9C, CHR 0xED, CHR 0x95, CHR 0x84, CHR 0x20, CHR 0xEC,
      CHR 0x97, CHR 0x85, CHR 0xEB, CHR 0x8D, CHR 0xB0, CHR 0xEC, CHR 0x9D, CHR 0xB4,
      CHR 0xED, CHR 0x8A, CHR 0xB8, CHR 0xEC, CHR 0x97, CHR 0x90, CHR 0x20, CHR 0xEC,
      CHR 0x8B, CHR 0xA4, CHR 0xED, CHR 0x8C, CHR 0xA8, CHR 0xED, CHR 0x96, CHR 0x88,
      CHR 0xEC, CHR 0x8A, CHR 0xB5, CHR 0xEB, CHR 0x8B, CHR 0x88, CHR 0xEB, CHR 0x8B,
      CHR 0xA4, CHR 0x2E, CHR 0x20, CHR 0xEA, CHR 0xB3, CHR 0xA0, CHR 0xEA, CHR 0xB0,
      CHR 0x9D, CHR 0xEC, CHR 0x84, CHR 0xBC, CHR 0xED, CHR 0x84, CHR 0xB0, CHR 0xEC,
      CHR 0x97, CHR 0x90, CHR 0x20, CHR 0xEB, CHR 0xAC, CHR 0xB8, CHR 0xEC, CHR 0x9D,
      CHR 0x98, CHR 0xED, CHR 0x95, CHR 0xB4, CHR 0xEC, CHR 0xA3, CHR 0xBC, CHR 0xEC,
      CHR 0x84, CHR 0xB8, CHR 0xEC, CHR 0x9A, CHR 0x94, CHR 0x2E]"

definition msg_payment_done :: string where
  \<comment> \<open>handlePayment, line 131, in English: Payment completed!\<close>
  "msg_payment_done =
     [CHR 0xEA, CHR 0xB2, CHR 0xB0, CHR 0xEC, CHR 0xA0, CHR 0x9C, CHR 0x20, CHR 0xEC,
      CHR 0x99, CHR 0x84, CHR 0xEB, CHR 0xA3, CHR 0x8C, CHR 0x21]"

definition log_payment_error :: string where
  \<comment> \<open>handlePayment, line 135, in English: Payment error:\<close>
  "log_payment_error =
     [CHR 0xEA, CHR 0xB2, CHR 0xB0, CHR 0xEC, CHR 0xA0, CHR 0x9C, CHR 0x20, CHR 0xEC,
      CHR 0x98, CHR 0xA4, CHR 0xEB, CHR 0xA5, CHR 0x98, CHR 0x3A]"

definition msg_payment_error :: string where
  \<comment> \<open>handlePayment, line 136, in English: An error occurred while processing the payment.\<close>
  "msg_payment_error =
     [CHR 0xEA, CHR 0xB2, CHR 0xB0, CHR 0xEC, CHR 0xA0, CHR 0x9C, CHR 0x20, CHR 0xEC,
      CHR 0xB2, CHR 0x98, CHR 0xEB, CHR 0xA6, CHR 0xAC, CHR 0x20, CHR 0xEC, CHR 0xA4,
      CHR 0x91, CHR 0x20, CHR 0xEC, CHR 0x98, CHR 0xA4, CHR 0xEB, CHR 0xA5, CHR 0x98,
      CHR 0xEA, CHR 0xB0, CHR 0x80, CHR 0x20, CHR 0xEB, CHR 0xB0, CHR 0x9C, CHR 0xEC,
      CHR 0x83, CHR 0x9D, CHR 0xED, CHR 0x96, CHR 0x88, CHR 0xEC, CHR 0x8A, CHR 0xB5,
      CHR 0xEB, CHR 0x8B, CHR 0x88, CHR 0xEB, CHR 0x8B, CHR 0xA4, CHR 0x2E]"

section \<open>The token route: \<open>src/app/api/video/token/route.ts\<close>\<close>

subsection \<open>Module constants\<close>

text \<open>
  The three constants read from \<open>process.env\<close> when the module is loaded (lines 10 to
  12). The non-null assertion \<open>!\<close> of the source is a type annotation only: a variable
  that is not set stays \<open>undefined\<close>.
\<close>

record config =
  CF_STREAM_KEY_ID :: "string option"
  CF_STREAM_SIGNING_KEY_BASE64 :: "string option"
  CF_STREAM_CUSTOMER_SUBDOMAIN :: "string option"

definition module_init :: "(string \<rightharpoonup> string) \<Rightarrow> config" where
  "module_init process_env =
     \<lparr> CF_STREAM_KEY_ID = process_env ''CF_STREAM_KEY_ID'',
       CF_STREAM_SIGNING_KEY_BASE64 = process_env ''CF_STREAM_SIGNING_KEY'',
       CF_STREAM_CUSTOMER_SUBDOMAIN = process_env ''CF_STREAM_CUSTOMER_SUBDOMAIN'' \<rparr>"

subsection \<open>Tokens, requests and responses\<close>

datatype KeyObject = KeyObject string

record jwt_header =
  alg :: string
  header_kid :: "string option"

record jwt_claims =
  sub :: json
  kid :: "string option"
  exp_claim :: int

text \<open>
  A signed token in compact form is its protected header, its claims and the signature
  over both; the model keeps the three parts as they are before base64url encoding.
  The builder of lines 106 to 112 puts the payload \<open>{ sub, kid }\<close> and the number given
  to \<open>setExpirationTime\<close> into the claims, and \<open>{ alg, kid }\<close> into the header; the
  signing itself belongs to the world of the call and may throw. The token carries the
  claims as \<open>JSON.stringify\<close> writes them, and so does the body of the response that
  \<open>NextResponse.json\<close> builds: both hold the \<open>videoId\<close> in its serialised form.
\<close>

record jwt =
  protected_header :: jwt_header
  payload :: jwt_claims
  signature :: string

record token_body =
  token :: jwt
  videoId :: json
  customerSubdomain :: "string option"
  expiresIn :: int

datatype response_body = ErrorBody string | TokenBody token_body

record http_response =
  status :: nat
  body :: response_body

text \<open>
  What the handler reads of a request: the \<open>Authorization\<close> header (\<open>null\<close> when it is
  missing) and the outcome of \<open>request.json()\<close>, which rejects when the body is absent or
  is not valid JSON.
\<close>

record request =
  headers_Authorization :: "string option"
  request_json :: "json promise"

text \<open>
  The world a call runs in: the identity provider, the entitlement store, the clock
  (\<open>Date.now()\<close>, in milliseconds), and the cryptographic primitives. \<open>createPrivateKey\<close>
  throws on a malformed key (\<open>None\<close>).
\<close>

record server_env =
  auth_getUser :: "string \<Rightarrow> user_response promise"
  profiles_select :: "string \<Rightarrow> profile_response promise"
  Date_now :: int
  base64_decode :: "string \<Rightarrow> string"
  createPrivateKey :: "string \<Rightarrow> KeyObject option"
  jwt_sign :: "KeyObject \<Rightarrow> jwt_header \<Rightarrow> jwt_claims \<Rightarrow> string promise"

text \<open>The calls a request makes on its collaborators, in the order they are made.\<close>

datatype server_effect =
    Call_getUser string
  | Call_profiles_select string
  | Call_request_json
  | Call_createPrivateKey string
  | Call_sign KeyObject jwt_header jwt_claims
  | Console_error string string

record outcome =
  response :: http_response
  effects :: "server_effect list"

subsection \<open>The handler\<close>

definition json_error :: "string \<Rightarrow> nat \<Rightarrow> http_response" where
  "json_error msg st = \<lparr> status = st, body = ErrorBody msg \<rparr>"

text \<open>
  \<open>getPrivateKey\<close> (lines 25 to 31): \<open>Buffer.from\<close> throws a TypeError on \<open>undefined\<close>;
  otherwise the configured string is decoded and handed to \<open>createPrivateKey\<close>.
\<close>

definition getPrivateKey :: "config \<Rightarrow> server_env \<Rightarrow> server_effect list \<times> (string + KeyObject)" where
  "getPrivateKey cfg env =
     (case CF_STREAM_SIGNING_KEY_BASE64 cfg of
        None \<Rightarrow> ([], Inl ''TypeError'')
      | Some b64 \<Rightarrow>
          (let pemKey = base64_decode env b64 in
           case createPrivateKey env pemKey of
             None \<Rightarrow> ([Call_createPrivateKey pemKey], Inl ''createPrivateKey'')
           | Some key \<Rightarrow> ([Call_createPrivateKey pemKey], Inr key)))"

text \<open>
  Step 5 (lines 99 to 119): load the key, compute the expiration from the clock, sign,
  and answer with status 200; the token and the body are JSON texts. \<open>Math.floor(Date.now() / 1000)\<close> is the floor division of
  the millisecond clock.
\<close>

definition POST_step5 ::
  "config \<Rightarrow> server_env \<Rightarrow> json \<Rightarrow> server_effect list \<times> (string + http_response)" where
  "POST_step5 cfg env vid =
     (case getPrivateKey cfg env of
        (t, Inl e) \<Rightarrow> (t, Inl e)
      | (t, Inr privateKey) \<Rightarrow>
          (let expires = 3600;
               expirationTime = Date_now env div 1000 + expires;
               claims = \<lparr> sub = vid, kid = CF_STREAM_KEY_ID cfg, exp_claim = expirationTime \<rparr>;
               header = \<lparr> alg = ''RS256'', header_kid = CF_STREAM_KEY_ID cfg \<rparr>
           in case jwt_sign env privateKey header claims of
                Rejected e \<Rightarrow> (t @ [Call_sign privateKey header claims], Inl e)
              | Fulfilled sg \<Rightarrow>
                  (t @ [Call_sign privateKey header claims],
                   Inr \<lparr> status = 200,
                         body = TokenBody
                           \<lparr> token = \<lparr> protected_header = header,
                                       payload = claims\<lparr> sub := serialised (sub claims) \<rparr>,
                                       signature = sg \<rparr>,
                             videoId = serialised vid,
                             customerSubdomain = CF_STREAM_CUSTOMER_SUBDOMAIN cfg,
                             expiresIn = expires \<rparr> \<rparr>)))"

text \<open>Step 4 (lines 88 to 97): parse the body, take \<open>videoId\<close>, refuse a falsy one.\<close>

definition POST_step4 ::
  "config \<Rightarrow> server_env \<Rightarrow> request \<Rightarrow> server_effect list \<times> (string + http_response)" where
  "POST_step4 cfg env req =
     (case request_json req of
        Rejected e \<Rightarrow> ([Call_request_json], Inl e)
      | Fulfilled b \<Rightarrow>
          (case destructure_videoId b of
             Inl e \<Rightarrow> ([Call_request_json], Inl e)
           | Inr None \<Rightarrow> ([Call_request_json], Inr (json_error msg_videoId_required 400))
           | Inr (Some vid) \<Rightarrow>
               if \<not> truthy_json vid
               then ([Call_request_json], Inr (json_error msg_videoId_required 400))
               else (case POST_step5 cfg env vid of
                       (t, r) \<Rightarrow> (Call_request_json # t, r))))"

text \<open>
  Step 3 (lines 67 to 86): read the profile of the user; \<open>profileError || !profile\<close>
  gives 404, so the handler goes on only with no error and a row, and a row that has
  not paid gives 403.
\<close>

definition POST_step3 ::
  "config \<Rightarrow> server_env \<Rightarrow> request \<Rightarrow> user \<Rightarrow> server_effect list \<times> (string + http_response)" where
  "POST_step3 cfg env req u =
     (case profiles_select env (uid u) of
        Rejected e \<Rightarrow> ([Call_profiles_select (uid u)], Inl e)
      | Fulfilled pr \<Rightarrow>
          (case (profile_error pr, data_profile pr) of
             (None, Some p) \<Rightarrow>
               if \<not> has_paid p
               then ([Call_profiles_select (uid u)], Inr (json_error msg_payment_required 403))
               else (case POST_step4 cfg env req of
                       (t, r) \<Rightarrow> (Call_profiles_select (uid u) # t, r))
           | _ \<Rightarrow> ([Call_profiles_select (uid u)], Inr (json_error msg_profile_not_found 404))))"

text \<open>
  The body of the \<open>try\<close> block (lines 45 to 119); \<open>Inl\<close> is an exception on its way to
  the \<open>catch\<close>.
\<close>

definition POST_try ::
  "config \<Rightarrow> server_env \<Rightarrow> request \<Rightarrow> server_effect list \<times> (string + http_response)" where
  "POST_try cfg env req =
     (case headers_Authorization req of
        None \<Rightarrow> ([], Inr (json_error msg_auth_required 401))
      | Some authHeader \<Rightarrow>
          if authHeader = [] \<or> \<not> prefix ''Bearer '' authHeader
          then ([], Inr (json_error msg_auth_required 401))
          else
            (let accessToken = replace ''Bearer '' [] authHeader in
             case auth_getUser env accessToken of
               Rejected e \<Rightarrow> ([Call_getUser accessToken], Inl e)
             | Fulfilled ur \<Rightarrow>
                 (case (user_error ur, data_user ur) of
                    (None, Some u) \<Rightarrow>
                      (case POST_step3 cfg env req u of
                         (t, r) \<Rightarrow> (Call_getUser accessToken # t, r))
                  | _ \<Rightarrow> ([Call_getUser accessToken], Inr (json_error msg_invalid_session 401)))))"

text \<open>
  \<open>POST\<close> (lines 43 to 128): an exception of the \<open>try\<close> block is logged and answered
  with status 500.
\<close>

definition POST :: "config \<Rightarrow> server_env \<Rightarrow> request \<Rightarrow> outcome" where
  "POST cfg env req =
     (case POST_try cfg env req of
        (t, Inr resp) \<Rightarrow> \<lparr> response = resp, effects = t \<rparr>
      | (t, Inl e) \<Rightarrow>
          \<lparr> response = json_error msg_token_failed 500,
            effects = t @ [Console_error log_token_error e] \<rparr>)"

text \<open>
  The process: the module is loaded once, which fixes the constants, and the runtime
  then calls \<open>POST\<close> once for every request, each in the world of its own moment.
\<close>

definition serve :: "(string \<rightharpoonup> string) \<Rightarrow> (server_env \<times> request) list \<Rightarrow> outcome list" where
  "serve process_env calls =
     (let cfg = module_init process_env in map (\<lambda>(env, req). POST cfg env req) calls)"

section \<open>The video player component: \<open>VideoPlayerWithAuth\<close>\<close>

datatype AuthStatus = Loading | Not_logged_in | Not_paid | Paid

record props =
  videoUrl_prop :: "string option"
  thumbnail :: "string option"
  title :: string
  courseId :: string
  price :: rat

text \<open>The argument of \<open>PortOne.requestPayment\<close> (lines 89 to 103).\<close>

record payment_request =
  storeId :: "string option"
  channelKey :: "string option"
  paymentId :: string
  orderName :: string
  totalAmount :: rat
  currency :: string
  payMethod :: string
  easyPayProvider :: string
  customer_email :: "string option"

text \<open>
  What the handler reads of the gateway's answer: \<open>code\<close> and \<open>message\<close>, each a string
  or \<open>undefined\<close>. The answer itself may be \<open>undefined\<close>.
\<close>

record payment_response =
  code :: "string option"
  message :: "string option"

text \<open>The row of the upsert (lines 116 to 119).\<close>

record profile_row =
  row_id :: string
  row_has_paid :: bool

text \<open>
  The world of the component: the identity provider (the session is the browser's), the
  entitlement store, the clock, the gateway, and the two public configuration values.
  The upsert answers \<open>{ error }\<close>.
\<close>

record client_env =
  client_getUser :: "user_response promise"
  client_profiles_select :: "string \<Rightarrow> profile_response promise"
  client_Date_now :: int
  requestPayment :: "payment_request \<Rightarrow> payment_response option promise"
  profiles_upsert :: "profile_row \<Rightarrow> string option promise"
  NEXT_PUBLIC_PORTONE_STORE_ID :: "string option"
  NEXT_PUBLIC_PORTONE_CHANNEL_KEY :: "string option"

datatype client_effect =
    Set_isProcessing bool
  | Set_authStatus AuthStatus
  | Call_client_getUser
  | Call_client_profiles_select string
  | Call_requestPayment payment_request
  | Call_upsert profile_row string
  | Client_console_error string string
  | Alert string
  | Reload

subsection \<open>\<open>handlePayment\<close> (lines 72 to 139)\<close>

text \<open>Line 86: \<open>`payment-${courseId}-${user.id}-${Date.now()}`\<close>.\<close>

definition make_paymentId :: "string \<Rightarrow> string \<Rightarrow> int \<Rightarrow> string" where
  "make_paymentId cid user_id now =
     ''payment-'' @ cid @ ''-'' @ user_id @ ''-'' @ string_of_int now"

text \<open>
  Lines 113 to 132, after a charge that was not refused: upsert the row; a reported
  error is logged and answered with the contact-support alert, success with the
  completion alert and a reload of the page.
\<close>

definition handlePayment_record :: "client_env \<Rightarrow> user \<Rightarrow> client_effect list \<times> string option" where
  "handlePayment_record env u =
     (let row = \<lparr> row_id = uid u, row_has_paid = True \<rparr> in
      case profiles_upsert env row of
        Rejected e \<Rightarrow> ([Call_upsert row ''id''], Some e)
      | Fulfilled (Some updateError) \<Rightarrow>
          ([Call_upsert row ''id'',
            Client_console_error log_profile_update_error updateError,
            Alert msg_paid_but_unrecorded,
            Set_isProcessing False], None)
      | Fulfilled None \<Rightarrow>
          ([Call_upsert row ''id'', Alert msg_payment_done, Reload], None))"

text \<open>
  Line 86 and lines 89 to 103: the payment id of this attempt and the charge request
  that carries it.
\<close>

definition payment_request_of :: "props \<Rightarrow> client_env \<Rightarrow> user \<Rightarrow> payment_request" where
  "payment_request_of ps env u =
     \<lparr> storeId = NEXT_PUBLIC_PORTONE_STORE_ID env,
       channelKey = NEXT_PUBLIC_PORTONE_CHANNEL_KEY env,
       paymentId = make_paymentId (courseId ps) (uid u) (client_Date_now env),
       orderName = title ps,
       totalAmount = price ps,
       currency = ''CURRENCY_KRW'',
       payMethod = ''EASY_PAY'',
       easyPayProvider = ''KAKAOPAY'',
       customer_email = email u \<rparr>"

text \<open>
  The body of the \<open>try\<close> block (lines 76 to 132); the second component is the exception
  thrown, if any. \<open>response?.code\<close> is falsy for an \<open>undefined\<close> answer, for an answer
  without a code and for an empty code.
\<close>

definition handlePayment_try :: "props \<Rightarrow> client_env \<Rightarrow> client_effect list \<times> string option" where
  "handlePayment_try ps env =
     (case client_getUser env of
        Rejected e \<Rightarrow> ([Call_client_getUser], Some e)
      | Fulfilled ur \<Rightarrow>
          (case data_user ur of
             None \<Rightarrow>
               ([Call_client_getUser, Alert msg_login_required, Set_isProcessing False], None)
           | Some u \<Rightarrow>
               (let preq = payment_request_of ps env u
                in case requestPayment env preq of
                     Rejected e \<Rightarrow> ([Call_client_getUser, Call_requestPayment preq], Some e)
                   | Fulfilled None \<Rightarrow>
                       (case handlePayment_record env u of
                          (t, x) \<Rightarrow> (Call_client_getUser # Call_requestPayment preq # t, x))
                   | Fulfilled (Some resp) \<Rightarrow>
                       if truthy_string (code resp)
                       then ([Call_client_getUser, Call_requestPayment preq,
                              Alert (msg_payment_failed_prefix @ template_string (message resp)),
                              Set_isProcessing False], None)
                       else (case handlePayment_record env u of
                               (t, x) \<Rightarrow>
                                 (Call_client_getUser # Call_requestPayment preq # t, x)))))"

definition handlePayment :: "props \<Rightarrow> client_env \<Rightarrow> client_effect list" where
  "handlePayment ps env =
     (case handlePayment_try ps env of
        (t, None) \<Rightarrow> Set_isProcessing True # t
      | (t, Some e) \<Rightarrow>
          Set_isProcessing True # t @
            [Client_console_error log_payment_error e, Alert msg_payment_error,
             Set_isProcessing False])"

subsection \<open>\<open>checkAuth\<close> (lines 141 to 172)\<close>

text \<open>
  The effect that runs when the component is mounted. A rejected call leaves the
  function without any \<open>setAuthStatus\<close>.
\<close>

definition checkAuth :: "client_env \<Rightarrow> client_effect list" where
  "checkAuth env =
     (case client_getUser env of
        Rejected e \<Rightarrow> [Call_client_getUser]
      | Fulfilled ur \<Rightarrow>
          (case (user_error ur, data_user ur) of
             (None, Some u) \<Rightarrow>
               (case client_profiles_select env (uid u) of
                  Rejected e \<Rightarrow> [Call_client_getUser, Call_client_profiles_select (uid u)]
                | Fulfilled pr \<Rightarrow>
                    (case (profile_error pr, data_profile pr) of
                       (None, Some p) \<Rightarrow>
                         if has_paid p
                         then [Call_client_getUser, Call_client_profiles_select (uid u),
                               Set_authStatus Paid]
                         else [Call_client_getUser, Call_client_profiles_select (uid u),
                               Set_authStatus Not_paid]
                     | _ \<Rightarrow> [Call_client_getUser, Call_client_profiles_select (uid u),
                             Set_authStatus Not_paid]))
           | _ \<Rightarrow> [Call_client_getUser, Set_authStatus Not_logged_in]))"

text \<open>The state \<open>authStatus\<close> after a run of effects: the last value set, if any.\<close>

fun authStatus_after :: "AuthStatus \<Rightarrow> client_effect list \<Rightarrow> AuthStatus" where
  "authStatus_after s [] = s"
| "authStatus_after s (Set_authStatus s' # es) = authStatus_after s' es"
| "authStatus_after s (e # es) = authStatus_after s es"

text \<open>
  One evaluation of the state machine: \<open>useState('loading')\<close> at the mount, then
  \<open>checkAuth\<close>.
\<close>

definition evaluate :: "client_env \<Rightarrow> AuthStatus" where
  "evaluate env = authStatus_after Loading (checkAuth env)"

section \<open>Notions the properties are stated with\<close>

text \<open>
  The session token a request carries: what follows the prefix \<open>Bearer \<close> of its
  \<open>Authorization\<close> header, when the header is there and has the prefix.
\<close>

definition bearer_token :: "request \<Rightarrow> string option" where
  "bearer_token req =
     (case headers_Authorization req of
        None \<Rightarrow> None
      | Some h \<Rightarrow> if prefix ''Bearer '' h then Some (drop 7 h) else None)"

text \<open>
  The identity provider rejects a token when its answer carries an error or no user.
\<close>

definition rejects :: "user_response \<Rightarrow> bool" where
  "rejects ur = (user_error ur \<noteq> None \<or> data_user ur = None)"

text \<open>
  A caller is unauthenticated when the request carries no token or the identity provider
  rejects the one it carries; it is authenticated as \<open>u\<close> when the provider answers the
  token with the user \<open>u\<close> and no error.
\<close>

definition unauthenticated :: "server_env \<Rightarrow> request \<Rightarrow> bool" where
  "unauthenticated env req =
     (case bearer_token req of
        None \<Rightarrow> True
      | Some tok \<Rightarrow>
          (case auth_getUser env tok of
             Rejected e \<Rightarrow> False
           | Fulfilled ur \<Rightarrow> rejects ur))"

definition authenticated_as :: "server_env \<Rightarrow> request \<Rightarrow> user \<Rightarrow> bool" where
  "authenticated_as env req u =
     (case bearer_token req of
        None \<Rightarrow> False
      | Some tok \<Rightarrow>
          auth_getUser env tok = Fulfilled \<lparr> data_user = Some u, user_error = None \<rparr>)"

text \<open>
  A user is entitled when the store answers the lookup with no error and a record whose
  flag is set.
\<close>

definition entitled :: "server_env \<Rightarrow> user \<Rightarrow> bool" where
  "entitled env u =
     (case profiles_select env (uid u) of
        Rejected e \<Rightarrow> False
      | Fulfilled pr \<Rightarrow>
          (case (profile_error pr, data_profile pr) of
             (None, Some p) \<Rightarrow> has_paid p
           | _ \<Rightarrow> False))"

text \<open>
  The store answers the lookup, and with no record or with a record whose flag is not
  set.
\<close>

definition absent_or_unpaid :: "server_env \<Rightarrow> user \<Rightarrow> bool" where
  "absent_or_unpaid env u =
     (case profiles_select env (uid u) of
        Rejected e \<Rightarrow> False
      | Fulfilled pr \<Rightarrow>
          (case data_profile pr of
             None \<Rightarrow> True
           | Some p \<Rightarrow> \<not> has_paid p))"

text \<open>The key loads among the effects of a call.\<close>

fun is_key_load :: "server_effect \<Rightarrow> bool" where
  "is_key_load (Call_createPrivateKey pem) = True"
| "is_key_load e = False"

fun is_sign :: "server_effect \<Rightarrow> bool" where
  "is_sign (Call_sign k h c) = True"
| "is_sign e = False"

definition key_loads :: "outcome list \<Rightarrow> server_effect list" where
  "key_loads os = filter is_key_load (concat (map effects os))"

text \<open>The answers with a token among the answers of a process.\<close>

definition tokens_minted :: "outcome list \<Rightarrow> outcome list" where
  "tokens_minted os = filter (\<lambda>x. status (response x) = 200) os"

text \<open>The answer of a call that mints: status 200 and the token with its claims.\<close>

definition minted :: "config \<Rightarrow> server_env \<Rightarrow> json \<Rightarrow> string \<Rightarrow> http_response" where
  "minted cfg env vid sg =
     \<lparr> status = 200,
       body = TokenBody
         \<lparr> token =
             \<lparr> protected_header = \<lparr> alg = ''RS256'', header_kid = CF_STREAM_KEY_ID cfg \<rparr>,
               payload = \<lparr> sub = serialised vid, kid = CF_STREAM_KEY_ID cfg,
                           exp_claim = Date_now env div 1000 + 3600 \<rparr>,
               signature = sg \<rparr>,
           videoId = serialised vid,
           customerSubdomain = CF_STREAM_CUSTOMER_SUBDOMAIN cfg,
           expiresIn = 3600 \<rparr> \<rparr>"


fun is_upsert :: "client_effect \<Rightarrow> bool" where
  "is_upsert (Call_upsert row c) = True"
| "is_upsert e = False"

section \<open>Example worlds\<close>

definition user_A :: user where
  "user_A = \<lparr> uid = ''user-1'', email = Some ''a@example.com'' \<rparr>"

definition process_env_ex :: "string \<rightharpoonup> string" where
  "process_env_ex =
     map_of [(''CF_STREAM_KEY_ID'', ''key-1''),
             (''CF_STREAM_SIGNING_KEY'', ''cGVt''),
             (''CF_STREAM_CUSTOMER_SUBDOMAIN'', ''customer-x.cloudflarestream.com'')]"

text \<open>
  A world where the session \<open>session-1\<close> is the one of \<open>user_A\<close>, every other token is
  refused, and the store answers for \<open>user_A\<close> as given.
\<close>

definition world :: "profile_response promise \<Rightarrow> server_env" where
  "world answer =
     \<lparr> auth_getUser = (\<lambda>tok.
         if tok = ''session-1''
         then Fulfilled \<lparr> data_user = Some user_A, user_error = None \<rparr>
         else Fulfilled \<lparr> data_user = None, user_error = Some ''invalid JWT'' \<rparr>),
       profiles_select = (\<lambda>i.
         if i = ''user-1'' then answer
         else Fulfilled \<lparr> data_profile = None, profile_error = Some ''PGRST116'' \<rparr>),
       Date_now = 1700000000123,
       base64_decode = (\<lambda>s. ''pem''),
       createPrivateKey = (\<lambda>pem. Some (KeyObject pem)),
       jwt_sign = (\<lambda>k h c. Fulfilled ''signature'') \<rparr>"

definition paid_world :: server_env where
  "paid_world =
     world (Fulfilled \<lparr> data_profile = Some \<lparr> has_paid = True \<rparr>, profile_error = None \<rparr>)"

definition unpaid_world :: server_env where
  "unpaid_world =
     world (Fulfilled \<lparr> data_profile = Some \<lparr> has_paid = False \<rparr>, profile_error = None \<rparr>)"

definition store_down_world :: server_env where
  "store_down_world =
     world (Fulfilled \<lparr> data_profile = None, profile_error = Some ''fetch failed'' \<rparr>)"

definition request_of :: "string option \<Rightarrow> json promise \<Rightarrow> request" where
  "request_of h b = \<lparr> headers_Authorization = h, request_json = b \<rparr>"

definition mint_request :: request where
  "mint_request =
     request_of (Some ''Bearer session-1'') (Fulfilled (JObj [(''videoId'', JStr ''vid123'')]))"


text \<open>
  A browser where the session is the one of \<open>user_A\<close>, with the answers of the store,
  of the gateway and of the upsert as given.
\<close>

definition browser ::
  "profile_response promise \<Rightarrow> payment_response option promise \<Rightarrow> string option promise \<Rightarrow>
   client_env" where
  "browser looked_up charged upserted =
     \<lparr> client_getUser = Fulfilled \<lparr> data_user = Some user_A, user_error = None \<rparr>,
       client_profiles_select = (\<lambda>i. looked_up),
       client_Date_now = 1700000000123,
       requestPayment = (\<lambda>preq. charged),
       profiles_upsert = (\<lambda>row. upserted),
       NEXT_PUBLIC_PORTONE_STORE_ID = Some ''store-1'',
       NEXT_PUBLIC_PORTONE_CHANNEL_KEY = Some ''channel-1'' \<rparr>"

definition no_row :: "profile_response promise" where
  "no_row = Fulfilled \<lparr> data_profile = None, profile_error = Some ''PGRST116'' \<rparr>"

definition paid_row :: "profile_response promise" where
  "paid_row = Fulfilled \<lparr> data_profile = Some \<lparr> has_paid = True \<rparr>, profile_error = None \<rparr>"

definition course :: props where
  "course =
     \<lparr> videoUrl_prop = None, thumbnail = None, title = ''Makeup basics'',
       courseId = ''course-7'', price = 50000 \<rparr>"

section \<open>Properties of the token route\<close>

subsection \<open>The stages of the handler\<close>

lemma replace_prefix: "prefix pat s \<Longrightarrow> replace pat rep s = rep @ drop (length pat) s"
  by (cases s) auto

lemma POST_try_no_token:
  "bearer_token req = None \<Longrightarrow> POST_try cfg env req = ([], Inr (json_error msg_auth_required 401))"
  by (auto simp: bearer_token_def POST_try_def split: option.splits if_splits)

lemma POST_try_token:
  assumes "bearer_token req = Some tok"
  shows "POST_try cfg env req =
     (case auth_getUser env tok of
        Rejected e \<Rightarrow> ([Call_getUser tok], Inl e)
      | Fulfilled ur \<Rightarrow>
          (case (user_error ur, data_user ur) of
             (None, Some u) \<Rightarrow>
               (case POST_step3 cfg env req u of (t, r) \<Rightarrow> (Call_getUser tok # t, r))
           | _ \<Rightarrow> ([Call_getUser tok], Inr (json_error msg_invalid_session 401))))"
proof -
  from assms obtain h where h: "headers_Authorization req = Some h" "prefix ''Bearer '' h" "tok = drop 7 h"
    by (auto simp: bearer_token_def split: option.splits if_splits)
  have l: "length ''Bearer '' = 7" by simp
  have r: "replace ''Bearer '' [] h = drop 7 h"
    using replace_prefix [OF h(2), of "[]"] unfolding l by simp
  from h(2) have ne: "h \<noteq> []" by auto
  show ?thesis
    unfolding h(3) using h(1,2) ne r by (simp add: POST_try_def Let_def)
qed

lemma POST_try_unauthenticated:
  assumes "unauthenticated env req"
  shows "\<exists>t m. POST_try cfg env req = (t, Inr (json_error m 401)) \<and>
           (\<forall>x. Call_profiles_select x \<notin> set t) \<and> Call_request_json \<notin> set t"
proof (cases "bearer_token req")
  case None
  then show ?thesis by (auto simp: POST_try_no_token)
next
  case (Some tok)
  with assms obtain ur where ur: "auth_getUser env tok = Fulfilled ur" "rejects ur"
    by (auto simp: unauthenticated_def split: promise.splits)
  then show ?thesis
    by (auto simp: POST_try_token [OF Some] rejects_def split: option.splits)
qed

lemma POST_try_authenticated:
  assumes "authenticated_as env req u"
  shows "\<exists>tok. bearer_token req = Some tok \<and>
           POST_try cfg env req =
             (case POST_step3 cfg env req u of (t, r) \<Rightarrow> (Call_getUser tok # t, r))"
  using assms
  by (auto simp: authenticated_as_def POST_try_token split: option.splits)

lemma POST_step3_entitled:
  "entitled env u \<Longrightarrow>
   POST_step3 cfg env req u =
     (case POST_step4 cfg env req of (t, r) \<Rightarrow> (Call_profiles_select (uid u) # t, r))"
  by (auto simp: POST_step3_def entitled_def split: promise.splits option.splits)

lemma POST_step3_not_entitled:
  "\<not> entitled env u \<Longrightarrow>
   POST_step3 cfg env req u =
     ([Call_profiles_select (uid u)],
      case profiles_select env (uid u) of
        Rejected e \<Rightarrow> Inl e
      | Fulfilled pr \<Rightarrow>
          if profile_error pr \<noteq> None \<or> data_profile pr = None
          then Inr (json_error msg_profile_not_found 404)
          else Inr (json_error msg_payment_required 403))"
  by (auto simp: POST_step3_def entitled_def split: promise.splits option.splits)

lemma absent_or_unpaid_not_entitled: "absent_or_unpaid env u \<Longrightarrow> \<not> entitled env u"
  by (auto simp: absent_or_unpaid_def entitled_def split: promise.splits option.splits)

lemma entitled_not_absent_or_unpaid: "entitled env u \<Longrightarrow> \<not> absent_or_unpaid env u"
  using absent_or_unpaid_not_entitled by blast

subsection \<open>Every way a call can go\<close>

lemma bearer_token_body [simp]: "bearer_token (req\<lparr>request_json := b\<rparr>) = bearer_token req"
  by (simp add: bearer_token_def)

lemma unauthenticated_body [simp]:
  "unauthenticated env (req\<lparr>request_json := b\<rparr>) = unauthenticated env req"
  by (simp add: unauthenticated_def)

lemma authenticated_as_body [simp]:
  "authenticated_as env (req\<lparr>request_json := b\<rparr>) u = authenticated_as env req u"
  by (simp add: authenticated_as_def)

lemma auth_cases:
  "unauthenticated env req \<or>
   (\<exists>tok e. bearer_token req = Some tok \<and> auth_getUser env tok = Rejected e) \<or>
   (\<exists>u. authenticated_as env req u)"
proof (cases "bearer_token req")
  case None
  then show ?thesis by (simp add: unauthenticated_def)
next
  case (Some tok)
  show ?thesis
  proof (cases "auth_getUser env tok")
    case (Rejected e)
    with Some show ?thesis by simp
  next
    case (Fulfilled ur)
    show ?thesis
    proof (cases "rejects ur")
      case True
      with Some Fulfilled show ?thesis by (simp add: unauthenticated_def)
    next
      case False
      then obtain u where "data_user ur = Some u" "user_error ur = None"
        by (auto simp: rejects_def)
      then have "ur = \<lparr> data_user = Some u, user_error = None \<rparr>" by simp
      with Some Fulfilled have "authenticated_as env req u"
        by (simp add: authenticated_as_def)
      then show ?thesis by blast
    qed
  qed
qed

lemma POST_try_rejected_auth:
  "bearer_token req = Some tok \<Longrightarrow> auth_getUser env tok = Rejected e \<Longrightarrow>
   POST_try cfg env req = ([Call_getUser tok], Inl e)"
  by (simp add: POST_try_token)

lemma POST_step5_cases:
  "(\<exists>t e. POST_step5 cfg env vid = (t, Inl e)) \<or>
   (\<exists>b64 k sg. CF_STREAM_SIGNING_KEY_BASE64 cfg = Some b64 \<and>
      createPrivateKey env (base64_decode env b64) = Some k \<and>
      POST_step5 cfg env vid =
        ([Call_createPrivateKey (base64_decode env b64),
          Call_sign k \<lparr> alg = ''RS256'', header_kid = CF_STREAM_KEY_ID cfg \<rparr>
            \<lparr> sub = vid, kid = CF_STREAM_KEY_ID cfg,
              exp_claim = Date_now env div 1000 + 3600 \<rparr>],
         Inr \<lparr> status = 200,
               body = TokenBody
                 \<lparr> token =
                     \<lparr> protected_header = \<lparr> alg = ''RS256'', header_kid = CF_STREAM_KEY_ID cfg \<rparr>,
                       payload = \<lparr> sub = serialised vid, kid = CF_STREAM_KEY_ID cfg,
                                   exp_claim = Date_now env div 1000 + 3600 \<rparr>,
                       signature = sg \<rparr>,
                   videoId = serialised vid,
                   customerSubdomain = CF_STREAM_CUSTOMER_SUBDOMAIN cfg,
                   expiresIn = 3600 \<rparr> \<rparr>))"
  by (auto simp: POST_step5_def getPrivateKey_def Let_def split: option.splits promise.splits)

lemma POST_step4_cases:
  obtains (thrown) x where
      "request_json req = Rejected x \<or>
       (\<exists>b. request_json req = Fulfilled b \<and> destructure_videoId b = Inl x)"
      "POST_step4 cfg env req = ([Call_request_json], Inl x)"
  | (refused) b where "request_json req = Fulfilled b"
      "destructure_videoId b = Inr None \<or>
       (\<exists>vid. destructure_videoId b = Inr (Some vid) \<and> \<not> truthy_json vid)"
      "POST_step4 cfg env req = ([Call_request_json], Inr (json_error msg_videoId_required 400))"
  | (signing) b vid where "request_json req = Fulfilled b"
      "destructure_videoId b = Inr (Some vid)" "truthy_json vid"
      "POST_step4 cfg env req =
        (case POST_step5 cfg env vid of (t, r) \<Rightarrow> (Call_request_json # t, r))"
proof (cases "request_json req")
  case (Rejected x)
  then show thesis
    using thrown [of x] by (simp add: POST_step4_def)
next
  case (Fulfilled b)
  show thesis
  proof (cases "destructure_videoId b")
    case (Inl x)
    with Fulfilled show thesis
      using thrown [of x] by (simp add: POST_step4_def)
  next
    case (Inr v)
    show thesis
    proof (cases v)
      case None
      with Fulfilled Inr show thesis
        using refused [of b] by (simp add: POST_step4_def)
    next
      case (Some vid)
      show thesis
      proof (cases "truthy_json vid")
        case True
        with Fulfilled Inr Some show thesis
          using signing [of b vid] by (simp add: POST_step4_def)
      next
        case False
        with Fulfilled Inr Some show thesis
          using refused [of b] by (simp add: POST_step4_def)
      qed
    qed
  qed
qed

lemma POST_entitled_cases:
  assumes a: "authenticated_as env req u" and e: "entitled env u"
  shows "\<exists>tok. bearer_token req = Some tok \<and>
     ((\<exists>x. (request_json req = Rejected x \<or>
            (\<exists>b. request_json req = Fulfilled b \<and> destructure_videoId b = Inl x)) \<and>
          POST cfg env req =
            \<lparr> response = json_error msg_token_failed 500,
              effects = [Call_getUser tok, Call_profiles_select (uid u), Call_request_json,
                         Console_error log_token_error x] \<rparr>) \<or>
      ((\<exists>b. request_json req = Fulfilled b \<and>
            (destructure_videoId b = Inr None \<or>
             (\<exists>vid. destructure_videoId b = Inr (Some vid) \<and> \<not> truthy_json vid))) \<and>
       POST cfg env req =
         \<lparr> response = json_error msg_videoId_required 400,
           effects = [Call_getUser tok, Call_profiles_select (uid u), Call_request_json] \<rparr>) \<or>
      (\<exists>b vid t x. request_json req = Fulfilled b \<and> destructure_videoId b = Inr (Some vid) \<and>
          truthy_json vid \<and> POST_step5 cfg env vid = (t, Inl x) \<and>
          POST cfg env req =
            \<lparr> response = json_error msg_token_failed 500,
              effects = Call_getUser tok # Call_profiles_select (uid u) # Call_request_json # t @
                         [Console_error log_token_error x] \<rparr>) \<or>
      (\<exists>b vid b64 k sg. request_json req = Fulfilled b \<and>
          destructure_videoId b = Inr (Some vid) \<and> truthy_json vid \<and>
          CF_STREAM_SIGNING_KEY_BASE64 cfg = Some b64 \<and>
          createPrivateKey env (base64_decode env b64) = Some k \<and>
          POST cfg env req =
            \<lparr> response = minted cfg env vid sg,
              effects = [Call_getUser tok, Call_profiles_select (uid u), Call_request_json,
                Call_createPrivateKey (base64_decode env b64),
                Call_sign k \<lparr> alg = ''RS256'', header_kid = CF_STREAM_KEY_ID cfg \<rparr>
                  \<lparr> sub = vid, kid = CF_STREAM_KEY_ID cfg,
                    exp_claim = Date_now env div 1000 + 3600 \<rparr>] \<rparr>))"
proof -
  from POST_try_authenticated [OF a, of cfg] obtain tok where
    tok: "bearer_token req = Some tok"
    and t: "POST_try cfg env req =
          (case POST_step3 cfg env req u of (t, r) \<Rightarrow> (Call_getUser tok # t, r))"
    by blast
  note s3 = POST_step3_entitled [OF e, of cfg req]
  show ?thesis
  proof (cases cfg env req rule: POST_step4_cases)
    case (thrown x)
    then show ?thesis
      by (simp add: tok POST_def t s3)
  next
    case (refused b)
    then show ?thesis
      by (simp add: tok POST_def t s3)
  next
    case (signing b vid)
    from POST_step5_cases [of cfg env vid] show ?thesis
    proof (elim disjE exE conjE)
      fix t5 x
      assume "POST_step5 cfg env vid = (t5, Inl x)"
      with signing show ?thesis
        by (simp add: tok POST_def t s3)
    next
      fix b64 k sg
      assume "CF_STREAM_SIGNING_KEY_BASE64 cfg = Some b64"
        "createPrivateKey env (base64_decode env b64) = Some k"
        "POST_step5 cfg env vid =
          ([Call_createPrivateKey (base64_decode env b64),
            Call_sign k \<lparr> alg = ''RS256'', header_kid = CF_STREAM_KEY_ID cfg \<rparr>
              \<lparr> sub = vid, kid = CF_STREAM_KEY_ID cfg,
                exp_claim = Date_now env div 1000 + 3600 \<rparr>],
           Inr \<lparr> status = 200,
                 body = TokenBody
                   \<lparr> token =
                       \<lparr> protected_header = \<lparr> alg = ''RS256'', header_kid = CF_STREAM_KEY_ID cfg \<rparr>,
                         payload = \<lparr> sub = serialised vid, kid = CF_STREAM_KEY_ID cfg,
                                     exp_claim = Date_now env div 1000 + 3600 \<rparr>,
                         signature = sg \<rparr>,
                     videoId = serialised vid,
                     customerSubdomain = CF_STREAM_CUSTOMER_SUBDOMAIN cfg,
                     expiresIn = 3600 \<rparr> \<rparr>)"
      with signing show ?thesis
        by (simp add: tok POST_def t s3 minted_def)
    qed
  qed
qed

lemma POST_not_entitled:
  assumes a: "authenticated_as env req u" and e: "\<not> entitled env u"
  shows "\<exists>tok. bearer_token req = Some tok \<and>
     POST cfg env req =
       (case profiles_select env (uid u) of
          Rejected x \<Rightarrow>
            \<lparr> response = json_error msg_token_failed 500,
              effects = [Call_getUser tok, Call_profiles_select (uid u),
                         Console_error log_token_error x] \<rparr>
        | Fulfilled pr \<Rightarrow>
            \<lparr> response =
                (if profile_error pr \<noteq> None \<or> data_profile pr = None
                 then json_error msg_profile_not_found 404
                 else json_error msg_payment_required 403),
              effects = [Call_getUser tok, Call_profiles_select (uid u)] \<rparr>)"
proof -
  from POST_try_authenticated [OF a, of cfg] obtain tok where
    tok: "bearer_token req = Some tok"
    and t: "POST_try cfg env req =
          (case POST_step3 cfg env req u of (t, r) \<Rightarrow> (Call_getUser tok # t, r))"
    by blast
  show ?thesis
    by (simp add: tok POST_def t POST_step3_not_entitled [OF e] split: promise.splits)
qed

lemma POST_rejected_auth:
  "bearer_token req = Some tok \<Longrightarrow> auth_getUser env tok = Rejected x \<Longrightarrow>
   POST cfg env req =
     \<lparr> response = json_error msg_token_failed 500,
       effects = [Call_getUser tok, Console_error log_token_error x] \<rparr>"
  by (simp add: POST_def POST_try_rejected_auth)

lemma POST_unauthenticated:
  assumes "unauthenticated env req"
  shows "\<exists>t m. POST cfg env req = \<lparr> response = json_error m 401, effects = t \<rparr> \<and>
           (t = [] \<or> (\<exists>tok. t = [Call_getUser tok]))"
proof (cases "bearer_token req")
  case None
  then show ?thesis by (auto simp: POST_def POST_try_no_token)
next
  case (Some tok)
  with assms obtain ur where ur: "auth_getUser env tok = Fulfilled ur" "rejects ur"
    by (auto simp: unauthenticated_def split: promise.splits)
  then show ?thesis
    by (auto simp: POST_def POST_try_token [OF Some] rejects_def split: option.splits)
qed

lemma POST_not_entitled_response:
  assumes a: "authenticated_as env req u" and e: "\<not> entitled env u"
  shows "\<exists>m st tok t. response (POST cfg env req) = json_error m st \<and>
           (st = 500 \<or> st = 404 \<or> st = 403) \<and>
           effects (POST cfg env req) = Call_getUser tok # Call_profiles_select (uid u) # t \<and>
           (t = [] \<or> (\<exists>x. t = [Console_error log_token_error x]))"
proof -
  from POST_not_entitled [OF a e, of cfg] obtain tok where
    p: "POST cfg env req =
       (case profiles_select env (uid u) of
          Rejected x \<Rightarrow>
            \<lparr> response = json_error msg_token_failed 500,
              effects = [Call_getUser tok, Call_profiles_select (uid u),
                         Console_error log_token_error x] \<rparr>
        | Fulfilled pr \<Rightarrow>
            \<lparr> response =
                (if profile_error pr \<noteq> None \<or> data_profile pr = None
                 then json_error msg_profile_not_found 404
                 else json_error msg_payment_required 403),
              effects = [Call_getUser tok, Call_profiles_select (uid u)] \<rparr>)"
    by blast
  show ?thesis
  proof (cases "profiles_select env (uid u)")
    case (Rejected x)
    then show ?thesis by (auto simp: p)
  next
    case (Fulfilled pr)
    then show ?thesis by (auto simp: p)
  qed
qed

lemma POST_status_cases:
  obtains (unauth) "unauthenticated env req" "status (response (POST cfg env req)) = 401"
      "filter is_key_load (effects (POST cfg env req)) = []"
      "Call_request_json \<notin> set (effects (POST cfg env req))"
  | (auth_thrown) "status (response (POST cfg env req)) = 500"
      "Call_request_json \<notin> set (effects (POST cfg env req))"
  | (not_entitled) u where "authenticated_as env req u" "\<not> entitled env u"
      "status (response (POST cfg env req)) = 500 \<or>
       status (response (POST cfg env req)) = 404 \<or>
       status (response (POST cfg env req)) = 403"
      "filter is_key_load (effects (POST cfg env req)) = []"
      "Call_request_json \<notin> set (effects (POST cfg env req))"
  | (body_thrown) u tok t where "authenticated_as env req u" "entitled env u"
      "status (response (POST cfg env req)) = 500"
      "effects (POST cfg env req) =
         Call_getUser tok # Call_profiles_select (uid u) # Call_request_json # t"
  | (refused) u tok where "authenticated_as env req u" "entitled env u"
      "status (response (POST cfg env req)) = 400"
      "effects (POST cfg env req) =
         [Call_getUser tok, Call_profiles_select (uid u), Call_request_json]"
  | (minted) u tok b64 t where "authenticated_as env req u" "entitled env u"
      "status (response (POST cfg env req)) = 200"
      "CF_STREAM_SIGNING_KEY_BASE64 cfg = Some b64"
      "effects (POST cfg env req) =
         Call_getUser tok # Call_profiles_select (uid u) # Call_request_json # t"
      "filter is_key_load (effects (POST cfg env req)) =
         [Call_createPrivateKey (base64_decode env b64)]"
proof -
  from auth_cases [of env req] consider
      (a) "unauthenticated env req"
    | (b) tok x where "bearer_token req = Some tok" "auth_getUser env tok = Rejected x"
    | (c) u where "authenticated_as env req u"
    by blast
  then show thesis
  proof cases
    case a
    from POST_unauthenticated [OF this, of cfg] a show thesis
      by (intro unauth) (auto simp: json_error_def)
  next
    case (b tok x)
    from POST_rejected_auth [OF this, of cfg] show thesis
      by (intro auth_thrown) (auto simp: json_error_def)
  next
    case (c u)
    show thesis
    proof (cases "entitled env u")
      case False
      from POST_not_entitled_response [OF c False, of cfg] c False show thesis
        by (intro not_entitled [of u]) (auto simp: json_error_def)
    next
      case True
      from POST_entitled_cases [OF c True, of cfg] obtain tok where
        d: "(\<exists>x. POST cfg env req =
              \<lparr> response = json_error msg_token_failed 500,
                effects = [Call_getUser tok, Call_profiles_select (uid u), Call_request_json,
                           Console_error log_token_error x] \<rparr>) \<or>
            (POST cfg env req =
              \<lparr> response = json_error msg_videoId_required 400,
                effects = [Call_getUser tok, Call_profiles_select (uid u), Call_request_json] \<rparr>) \<or>
            (\<exists>t x. POST cfg env req =
              \<lparr> response = json_error msg_token_failed 500,
                effects = Call_getUser tok # Call_profiles_select (uid u) # Call_request_json # t @
                           [Console_error log_token_error x] \<rparr>) \<or>
            (\<exists>vid b64 k sg. CF_STREAM_SIGNING_KEY_BASE64 cfg = Some b64 \<and>
              POST cfg env req =
              \<lparr> response = minted cfg env vid sg,
                effects = [Call_getUser tok, Call_profiles_select (uid u), Call_request_json,
                  Call_createPrivateKey (base64_decode env b64),
                  Call_sign k \<lparr> alg = ''RS256'', header_kid = CF_STREAM_KEY_ID cfg \<rparr>
                    \<lparr> sub = vid, kid = CF_STREAM_KEY_ID cfg,
                      exp_claim = Date_now env div 1000 + 3600 \<rparr>] \<rparr>)"
        by blast
      then show thesis
      proof (elim disjE exE conjE)
        fix x
        assume "POST cfg env req =
              \<lparr> response = json_error msg_token_failed 500,
                effects = [Call_getUser tok, Call_profiles_select (uid u), Call_request_json,
                           Console_error log_token_error x] \<rparr>"
        with c True show thesis
          by (intro body_thrown [of u tok]) (auto simp: json_error_def)
      next
        assume "POST cfg env req =
              \<lparr> response = json_error msg_videoId_required 400,
                effects = [Call_getUser tok, Call_profiles_select (uid u), Call_request_json] \<rparr>"
        with c True show thesis
          by (intro refused [of u tok]) (auto simp: json_error_def)
      next
        fix t x
        assume "POST cfg env req =
              \<lparr> response = json_error msg_token_failed 500,
                effects = Call_getUser tok # Call_profiles_select (uid u) # Call_request_json # t @
                           [Console_error log_token_error x] \<rparr>"
        with c True show thesis
          by (intro body_thrown [of u tok]) (auto simp: json_error_def)
      next
        fix vid b64 k sg
        assume "CF_STREAM_SIGNING_KEY_BASE64 cfg = Some b64"
          "POST cfg env req =
              \<lparr> response = minted cfg env vid sg,
                effects = [Call_getUser tok, Call_profiles_select (uid u), Call_request_json,
                  Call_createPrivateKey (base64_decode env b64),
                  Call_sign k \<lparr> alg = ''RS256'', header_kid = CF_STREAM_KEY_ID cfg \<rparr>
                    \<lparr> sub = vid, kid = CF_STREAM_KEY_ID cfg,
                      exp_claim = Date_now env div 1000 + 3600 \<rparr>] \<rparr>"
        with c True show thesis
          by (intro minted [of u b64 tok]) (auto simp: minted_def)
      qed
    qed
  qed
qed

subsection \<open>The example worlds\<close>

lemmas world_defs =
  paid_world_def unpaid_world_def store_down_world_def world_def mint_request_def
  request_of_def user_A_def process_env_ex_def module_init_def

lemma authenticated_ex: "authenticated_as (world a) mint_request user_A"
  by (simp add: authenticated_as_def bearer_token_def world_defs)

subsection \<open>Entitlement is verified at every call\<close>

text \<open>
  C1. In a process that serves any sequence of calls, each in the world of its own
  moment: every call of an authenticated caller asks the store for this caller's
  profile during this very call; and when the store then answers with no record or with
  a record that has not paid, the call is answered with status 404 or 403 and an error
  body, and nothing is signed. What earlier calls of the process returned plays no
  role.
\<close>

theorem mint_reverifies_entitlement:
  assumes "i < length calls" and "calls ! i = (env, req)"
    and "authenticated_as env req u"
  shows "Call_profiles_select (uid u) \<in> set (effects (serve process_env calls ! i)) \<and>
         (absent_or_unpaid env u \<longrightarrow>
            (status (response (serve process_env calls ! i)) = 404 \<or>
             status (response (serve process_env calls ! i)) = 403) \<and>
            (\<exists>msg. body (response (serve process_env calls ! i)) = ErrorBody msg) \<and>
            filter is_sign (effects (serve process_env calls ! i)) = [])"
proof -
  let ?cfg = "module_init process_env"
  have s: "serve process_env calls ! i = POST ?cfg env req"
    using assms(1,2) by (simp add: serve_def)
  show ?thesis
  proof (cases "entitled env u")
    case True
    from POST_entitled_cases [OF assms(3) True, of ?cfg]
    have "Call_profiles_select (uid u) \<in> set (effects (POST ?cfg env req))"
      by auto
    with entitled_not_absent_or_unpaid [OF True] show ?thesis
      unfolding s by simp
  next
    case False
    from POST_not_entitled [OF assms(3) False, of ?cfg] obtain tok where
      p: "POST ?cfg env req =
       (case profiles_select env (uid u) of
          Rejected x \<Rightarrow>
            \<lparr> response = json_error msg_token_failed 500,
              effects = [Call_getUser tok, Call_profiles_select (uid u),
                         Console_error log_token_error x] \<rparr>
        | Fulfilled pr \<Rightarrow>
            \<lparr> response =
                (if profile_error pr \<noteq> None \<or> data_profile pr = None
                 then json_error msg_profile_not_found 404
                 else json_error msg_payment_required 403),
              effects = [Call_getUser tok, Call_profiles_select (uid u)] \<rparr>)"
      by blast
    show ?thesis
    proof (cases "profiles_select env (uid u)")
      case (Rejected x)
      then show ?thesis
        unfolding s by (simp add: p absent_or_unpaid_def)
    next
      case (Fulfilled pr)
      then show ?thesis
        unfolding s by (simp add: p json_error_def)
    qed
  qed
qed

text \<open>
  The example: the first call finds the user paid and mints; at the second call the
  store answers that the user has not paid, and the call is refused with 403.
\<close>

theorem mint_reverifies_entitlement_witness:
  "1 < length [(paid_world, mint_request), (unpaid_world, mint_request)] \<and>
   authenticated_as unpaid_world mint_request user_A \<and>
   absent_or_unpaid unpaid_world user_A \<and>
   status (response (serve process_env_ex
     [(paid_world, mint_request), (unpaid_world, mint_request)] ! 0)) = 200 \<and>
   status (response (serve process_env_ex
     [(paid_world, mint_request), (unpaid_world, mint_request)] ! 1)) = 403 \<and>
   filter is_sign (effects (serve process_env_ex
     [(paid_world, mint_request), (unpaid_world, mint_request)] ! 1)) = [] \<and>
   Call_profiles_select ''user-1'' \<in> set (effects (serve process_env_ex
     [(paid_world, mint_request), (unpaid_world, mint_request)] ! 1))"
proof -
  let ?calls = "[(paid_world, mint_request), (unpaid_world, mint_request)]"
  have a: "authenticated_as unpaid_world mint_request user_A"
    by (simp add: unpaid_world_def authenticated_ex)
  have b: "absent_or_unpaid unpaid_world user_A"
    by (simp add: absent_or_unpaid_def world_defs)
  have c: "status (response (serve process_env_ex ?calls ! 0)) = 200"
    by (simp add: serve_def POST_def POST_try_def POST_step3_def POST_step4_def POST_step5_def
        getPrivateKey_def world_defs Let_def)
  have l: "(1::nat) < length ?calls"
    by simp
  have n: "?calls ! 1 = (unpaid_world, mint_request)"
    by simp
  have d: "status (response (serve process_env_ex ?calls ! 1)) = 403"
    by (simp add: serve_def POST_def POST_try_def POST_step3_def json_error_def world_defs Let_def)
  have u: "uid user_A = ''user-1''"
    by (simp add: user_A_def)
  show ?thesis
    using mint_reverifies_entitlement [OF l n a, of process_env_ex] a b c d u by simp
qed

subsection \<open>The minted token\<close>





text \<open>
  Such calls exist in general: when the key loads and the signing succeeds, the call of
  an entitled caller with a truthy \<open>videoId\<close> is answered with the token.
\<close>

lemma mint_succeeds:
  assumes "authenticated_as env req u" and "entitled env u"
    and "request_json req = Fulfilled b" and "destructure_videoId b = Inr (Some vid)"
    and "truthy_json vid"
    and "CF_STREAM_SIGNING_KEY_BASE64 cfg = Some b64"
    and "createPrivateKey env (base64_decode env b64) = Some k"
    and "jwt_sign env k \<lparr> alg = ''RS256'', header_kid = CF_STREAM_KEY_ID cfg \<rparr>
           \<lparr> sub = vid, kid = CF_STREAM_KEY_ID cfg,
             exp_claim = Date_now env div 1000 + 3600 \<rparr> = Fulfilled sg"
  shows "response (POST cfg env req) = minted cfg env vid sg"
proof -
  from POST_try_authenticated [OF assms(1), of cfg] obtain tok where
    t: "POST_try cfg env req =
          (case POST_step3 cfg env req u of (t, r) \<Rightarrow> (Call_getUser tok # t, r))"
    by blast
  have s5: "POST_step5 cfg env vid =
     ([Call_createPrivateKey (base64_decode env b64),
       Call_sign k \<lparr> alg = ''RS256'', header_kid = CF_STREAM_KEY_ID cfg \<rparr>
         \<lparr> sub = vid, kid = CF_STREAM_KEY_ID cfg,
           exp_claim = Date_now env div 1000 + 3600 \<rparr>],
      Inr (minted cfg env vid sg))"
    using assms(6-8) by (simp add: POST_step5_def getPrivateKey_def Let_def minted_def)
  have s4: "POST_step4 cfg env req =
     (case POST_step5 cfg env vid of (t, r) \<Rightarrow> (Call_request_json # t, r))"
    using assms(3-5) by (simp add: POST_step4_def)
  show ?thesis
    by (simp add: POST_def t POST_step3_entitled [OF assms(2)] s4 s5)
qed

subsection \<open>Authentication comes first\<close>

text \<open>
  C3. A mint request whose \<open>Authorization\<close> header is missing, or does not start with
  \<open>Bearer \<close>, or carries a token that the identity provider answers with an error or
  with no user, is answered with status 401 and an error body. The entitlement store is
  not asked, and the answer of the call is the same whatever the store would answer.
\<close>

theorem unauthenticated_is_401:
  assumes "unauthenticated env req"
  shows "status (response (POST cfg env req)) = 401 \<and>
         (\<exists>msg. body (response (POST cfg env req)) = ErrorBody msg) \<and>
         (\<forall>x. Call_profiles_select x \<notin> set (effects (POST cfg env req))) \<and>
         (\<forall>store. POST cfg (env\<lparr>profiles_select := store\<rparr>) req = POST cfg env req)"
proof -
  from POST_try_unauthenticated [OF assms, of cfg] obtain t m where
    t: "POST_try cfg env req = (t, Inr (json_error m 401))"
       "\<forall>x. Call_profiles_select x \<notin> set t"
    by blast
  have ind: "POST_try cfg (env\<lparr>profiles_select := store\<rparr>) req = POST_try cfg env req" for store
  proof (cases "bearer_token req")
    case None
    then show ?thesis by (simp add: POST_try_no_token)
  next
    case (Some tok)
    with assms obtain ur where ur: "auth_getUser env tok = Fulfilled ur" "rejects ur"
      by (auto simp: unauthenticated_def split: promise.splits)
    then show ?thesis
      by (auto simp: POST_try_token [OF Some] rejects_def split: option.splits)
  qed
  show ?thesis
    using t by (simp add: POST_def ind json_error_def)
qed

theorem unauthenticated_is_401_witness:
  "unauthenticated paid_world (request_of None (request_json mint_request)) \<and>
   unauthenticated paid_world (request_of (Some ''session-1'') (request_json mint_request)) \<and>
   unauthenticated paid_world (request_of (Some ''Bearer stolen'') (request_json mint_request)) \<and>
   status (response (POST (module_init process_env_ex) paid_world
     (request_of (Some ''Bearer stolen'') (request_json mint_request)))) = 401 \<and>
   (\<forall>x. Call_profiles_select x \<notin> set (effects (POST (module_init process_env_ex) paid_world
     (request_of (Some ''Bearer stolen'') (request_json mint_request)))))"
proof -
  have a: "unauthenticated paid_world (request_of None (request_json mint_request))"
    by (simp add: unauthenticated_def bearer_token_def world_defs)
  have b: "unauthenticated paid_world (request_of (Some ''session-1'') (request_json mint_request))"
    by (simp add: unauthenticated_def bearer_token_def world_defs)
  have c: "unauthenticated paid_world (request_of (Some ''Bearer stolen'') (request_json mint_request))"
    by (simp add: unauthenticated_def bearer_token_def rejects_def world_defs)
  show ?thesis
    using unauthenticated_is_401 [OF c, of "module_init process_env_ex"] a b c by simp
qed

subsection \<open>A lookup that fails\<close>

text \<open>
  The claim C4 asks for the Internal class when the lookup itself fails. It does not
  hold: with the store unreachable, so that the lookup answers with an error and no
  data, the call is answered 404 with the profile-not-found message.
\<close>

theorem lookup_error_is_internal_counterexample:
  "authenticated_as store_down_world mint_request user_A \<and>
   profiles_select store_down_world (uid user_A) =
     Fulfilled \<lparr> data_profile = None, profile_error = Some ''fetch failed'' \<rparr> \<and>
   response (POST (module_init process_env_ex) store_down_world mint_request) =
     json_error msg_profile_not_found 404 \<and>
   status (response (POST (module_init process_env_ex) store_down_world mint_request)) \<noteq> 500"
  by (simp add: authenticated_as_def bearer_token_def POST_def POST_try_def POST_step3_def
      json_error_def world_defs Let_def)

text \<open>
  C4, as the handler has it. For an authenticated caller the answer is 404 exactly when
  the lookup answers with an error or with no record: an error that the store reports is
  classified as NotFound, like an absent record. The Internal class (500) is what a
  lookup call that throws gets.
\<close>

theorem lookup_error_is_not_found:
  assumes "authenticated_as env req u"
  shows "(status (response (POST cfg env req)) = 404) =
           (\<exists>pr. profiles_select env (uid u) = Fulfilled pr \<and>
                 (profile_error pr \<noteq> None \<or> data_profile pr = None)) \<and>
         (\<forall>x. profiles_select env (uid u) = Rejected x \<longrightarrow>
              status (response (POST cfg env req)) = 500)"
proof (cases "entitled env u")
  case True
  then have n: "\<not> (\<exists>pr. profiles_select env (uid u) = Fulfilled pr \<and>
                 (profile_error pr \<noteq> None \<or> data_profile pr = None))"
    and r: "\<forall>x. profiles_select env (uid u) \<noteq> Rejected x"
    by (auto simp: entitled_def split: promise.splits option.splits)
  from POST_entitled_cases [OF assms True, of cfg]
  have "status (response (POST cfg env req)) \<noteq> 404"
    by (auto simp: json_error_def minted_def)
  with n r show ?thesis by simp
next
  case False
  from POST_not_entitled [OF assms False, of cfg] False show ?thesis
    by (auto simp: json_error_def entitled_def split: promise.splits option.splits)
qed

theorem lookup_error_is_not_found_witness:
  "authenticated_as store_down_world mint_request user_A \<and>
   status (response (POST (module_init process_env_ex) store_down_world mint_request)) = 404 \<and>
   authenticated_as unpaid_world mint_request user_A \<and>
   status (response (POST (module_init process_env_ex) unpaid_world mint_request)) \<noteq> 404"
proof -
  have a: "authenticated_as store_down_world mint_request user_A"
    by (simp add: store_down_world_def authenticated_ex)
  have b: "authenticated_as unpaid_world mint_request user_A"
    by (simp add: unpaid_world_def authenticated_ex)
  have s: "\<exists>pr. profiles_select store_down_world (uid user_A) = Fulfilled pr \<and>
                 (profile_error pr \<noteq> None \<or> data_profile pr = None)"
    by (simp add: world_defs)
  have u: "\<not> (\<exists>pr. profiles_select unpaid_world (uid user_A) = Fulfilled pr \<and>
                 (profile_error pr \<noteq> None \<or> data_profile pr = None))"
    by (simp add: world_defs)
  from lookup_error_is_not_found [OF a, of "module_init process_env_ex"]
    lookup_error_is_not_found [OF b, of "module_init process_env_ex"] a b s u
  show ?thesis by simp
qed

subsection \<open>Where the signing key is loaded\<close>

lemma POST_minted_key_load:
  "status (response (POST cfg env req)) = 200 \<Longrightarrow>
   \<exists>b64. CF_STREAM_SIGNING_KEY_BASE64 cfg = Some b64 \<and>
     filter is_key_load (effects (POST cfg env req)) =
       [Call_createPrivateKey (base64_decode env b64)]"
  by (rule POST_status_cases [where env = env and req = req and cfg = cfg]) auto

lemma POST_refused_no_key_load:
  "status (response (POST cfg env req)) = 400 \<or> status (response (POST cfg env req)) = 401 \<or>
   status (response (POST cfg env req)) = 403 \<or> status (response (POST cfg env req)) = 404 \<Longrightarrow>
   filter is_key_load (effects (POST cfg env req)) = []"
  by (rule POST_status_cases [where env = env and req = req and cfg = cfg]) auto

lemma tokens_minted_le_key_loads:
  "length (tokens_minted (map (\<lambda>(env, req). POST cfg env req) calls)) \<le>
   length (key_loads (map (\<lambda>(env, req). POST cfg env req) calls))"
proof (induction calls)
  case Nil
  show ?case by (simp add: tokens_minted_def key_loads_def)
next
  case (Cons c calls)
  obtain env req where c: "c = (env, req)" by (cases c)
  show ?case
  proof (cases "status (response (POST cfg env req)) = 200")
    case True
    from POST_minted_key_load [OF True] have
      "length (filter is_key_load (effects (POST cfg env req))) = 1"
      by auto
    with Cons True show ?thesis
      by (simp add: c tokens_minted_def key_loads_def)
  next
    case False
    with Cons show ?thesis
      by (simp add: c tokens_minted_def key_loads_def)
  qed
qed

text \<open>
  The claim C8 has the key loaded once, when the process starts, and never by a mint
  call. It does not hold: a process that serves no call loads no key, a process that
  serves two minting calls loads the key twice, and the load is among the effects of the
  minting call itself.
\<close>

theorem key_loaded_once_counterexample:
  "key_loads (serve process_env_ex []) = [] \<and>
   key_loads (serve process_env_ex [(paid_world, mint_request), (paid_world, mint_request)]) =
     [Call_createPrivateKey ''pem'', Call_createPrivateKey ''pem''] \<and>
   Call_createPrivateKey ''pem'' \<in>
     set (effects (POST (module_init process_env_ex) paid_world mint_request))"
  by (simp add: key_loads_def serve_def POST_def POST_try_def POST_step3_def POST_step4_def
      POST_step5_def getPrivateKey_def world_defs Let_def)

text \<open>
  C8, as the handler has it. The configured key text is read once, when the module is
  loaded; the key itself is decoded and constructed inside the mint calls. In a process
  that serves any sequence of calls, every call answered with a token loaded the key
  itself, exactly once and from that configured text; a call answered 400, 401, 403 or
  404 loaded nothing; so the process loads the key at least as often as it mints.
\<close>

theorem key_loaded_by_each_minting_call:
  assumes "i < length calls" and "calls ! i = (env, req)"
  shows "(status (response (serve process_env calls ! i)) = 200 \<longrightarrow>
           (\<exists>b64. process_env ''CF_STREAM_SIGNING_KEY'' = Some b64 \<and>
              filter is_key_load (effects (serve process_env calls ! i)) =
                [Call_createPrivateKey (base64_decode env b64)])) \<and>
         (status (response (serve process_env calls ! i)) = 400 \<or>
          status (response (serve process_env calls ! i)) = 401 \<or>
          status (response (serve process_env calls ! i)) = 403 \<or>
          status (response (serve process_env calls ! i)) = 404 \<longrightarrow>
            filter is_key_load (effects (serve process_env calls ! i)) = []) \<and>
         length (tokens_minted (serve process_env calls)) \<le>
           length (key_loads (serve process_env calls))"
proof -
  let ?cfg = "module_init process_env"
  have s: "serve process_env calls ! i = POST ?cfg env req"
    using assms by (simp add: serve_def)
  have k: "CF_STREAM_SIGNING_KEY_BASE64 ?cfg = process_env ''CF_STREAM_SIGNING_KEY''"
    by (simp add: module_init_def)
  have 1: "status (response (POST ?cfg env req)) = 200 \<longrightarrow>
           (\<exists>b64. process_env ''CF_STREAM_SIGNING_KEY'' = Some b64 \<and>
              filter is_key_load (effects (POST ?cfg env req)) =
                [Call_createPrivateKey (base64_decode env b64)])"
    using POST_minted_key_load [of ?cfg env req] unfolding k by blast
  have 2: "status (response (POST ?cfg env req)) = 400 \<or>
          status (response (POST ?cfg env req)) = 401 \<or>
          status (response (POST ?cfg env req)) = 403 \<or>
          status (response (POST ?cfg env req)) = 404 \<longrightarrow>
            filter is_key_load (effects (POST ?cfg env req)) = []"
    using POST_refused_no_key_load [of ?cfg env req] by blast
  have 3: "length (tokens_minted (serve process_env calls)) \<le>
           length (key_loads (serve process_env calls))"
    using tokens_minted_le_key_loads [of ?cfg calls] by (simp add: serve_def)
  from 1 2 3 show ?thesis unfolding s by blast
qed

theorem key_loaded_by_each_minting_call_witness:
  "(0::nat) < length [(paid_world, mint_request), (unpaid_world, mint_request)] \<and>
   status (response (serve process_env_ex
     [(paid_world, mint_request), (unpaid_world, mint_request)] ! 0)) = 200 \<and>
   filter is_key_load (effects (serve process_env_ex
     [(paid_world, mint_request), (unpaid_world, mint_request)] ! 0)) =
     [Call_createPrivateKey ''pem''] \<and>
   status (response (serve process_env_ex
     [(paid_world, mint_request), (unpaid_world, mint_request)] ! 1)) = 403 \<and>
   filter is_key_load (effects (serve process_env_ex
     [(paid_world, mint_request), (unpaid_world, mint_request)] ! 1)) = []"
proof -
  let ?calls = "[(paid_world, mint_request), (unpaid_world, mint_request)]"
  have l0: "(0::nat) < length ?calls" and l1: "(1::nat) < length ?calls"
    by simp_all
  have n0: "?calls ! 0 = (paid_world, mint_request)"
    and n1: "?calls ! 1 = (unpaid_world, mint_request)"
    by simp_all
  have s0: "status (response (serve process_env_ex ?calls ! 0)) = 200"
    by (simp add: serve_def POST_def POST_try_def POST_step3_def POST_step4_def POST_step5_def
        getPrivateKey_def world_defs Let_def)
  have s1: "status (response (serve process_env_ex ?calls ! 1)) = 403"
    by (simp add: serve_def POST_def POST_try_def POST_step3_def json_error_def world_defs Let_def)
  have b: "base64_decode paid_world x = ''pem''" for x
    by (simp add: world_defs)
  have p: "process_env_ex ''CF_STREAM_SIGNING_KEY'' = Some ''cGVt''"
    by (simp add: process_env_ex_def)
  from key_loaded_by_each_minting_call [OF l0 n0, of process_env_ex]
    key_loaded_by_each_minting_call [OF l1 n1, of process_env_ex] s0 s1 b p l0
  show ?thesis by simp
qed

subsection \<open>The checks come before the body\<close>

text \<open>
  C9. Authentication and entitlement are checked before the body is read. Whatever the
  body of the request is: an unauthenticated caller is answered 401, and an
  authenticated caller whose record is absent or unpaid is answered 404 or 403. An
  answer 400 is given only to a caller who is authenticated and entitled, and the body
  is read only after the identity provider and the store have been asked, in this
  order, for such a caller.
\<close>

theorem authorization_precedes_body:
  "(unauthenticated env req \<longrightarrow>
      (\<forall>b. status (response (POST cfg env (req\<lparr>request_json := b\<rparr>))) = 401)) \<and>
   (authenticated_as env req u \<and> absent_or_unpaid env u \<longrightarrow>
      (\<forall>b. status (response (POST cfg env (req\<lparr>request_json := b\<rparr>))) = 404 \<or>
           status (response (POST cfg env (req\<lparr>request_json := b\<rparr>))) = 403)) \<and>
   (status (response (POST cfg env req)) = 400 \<longrightarrow>
      (\<exists>v. authenticated_as env req v \<and> entitled env v)) \<and>
   (Call_request_json \<in> set (effects (POST cfg env req)) \<longrightarrow>
      (\<exists>v tok t. authenticated_as env req v \<and> entitled env v \<and>
         effects (POST cfg env req) =
           Call_getUser tok # Call_profiles_select (uid v) # Call_request_json # t))"
proof (intro conjI impI allI)
  fix b
  assume "unauthenticated env req"
  then have "unauthenticated env (req\<lparr>request_json := b\<rparr>)" by simp
  from POST_unauthenticated [OF this, of cfg]
  show "status (response (POST cfg env (req\<lparr>request_json := b\<rparr>))) = 401"
    by (auto simp: json_error_def)
next
  fix b
  assume "authenticated_as env req u \<and> absent_or_unpaid env u"
  then have a: "authenticated_as env (req\<lparr>request_json := b\<rparr>) u"
    and n: "\<not> entitled env u" and au: "absent_or_unpaid env u"
    by (simp_all add: absent_or_unpaid_not_entitled)
  from au obtain pr where "profiles_select env (uid u) = Fulfilled pr"
    by (auto simp: absent_or_unpaid_def split: promise.splits)
  with POST_not_entitled [OF a n, of cfg]
  show "status (response (POST cfg env (req\<lparr>request_json := b\<rparr>))) = 404 \<or>
        status (response (POST cfg env (req\<lparr>request_json := b\<rparr>))) = 403"
    by (auto simp: json_error_def split: if_splits)
next
  assume s: "status (response (POST cfg env req)) = 400"
  show "\<exists>v. authenticated_as env req v \<and> entitled env v"
    by (rule POST_status_cases [where env = env and req = req and cfg = cfg]) (use s in auto)
next
  assume s: "Call_request_json \<in> set (effects (POST cfg env req))"
  show "\<exists>v tok t. authenticated_as env req v \<and> entitled env v \<and>
         effects (POST cfg env req) =
           Call_getUser tok # Call_profiles_select (uid v) # Call_request_json # t"
    by (rule POST_status_cases [where env = env and req = req and cfg = cfg]) (use s in auto)
qed

theorem authorization_precedes_body_witness:
  "unauthenticated paid_world (request_of None (Fulfilled JNull)) \<and>
   (\<forall>b. status (response (POST (module_init process_env_ex) paid_world
      (request_of None b))) = 401) \<and>
   authenticated_as unpaid_world mint_request user_A \<and> absent_or_unpaid unpaid_world user_A \<and>
   (\<forall>b. status (response (POST (module_init process_env_ex) unpaid_world
      (request_of (Some ''Bearer session-1'') b))) = 403) \<and>
   status (response (POST (module_init process_env_ex) paid_world
      (request_of (Some ''Bearer session-1'') (Fulfilled (JObj [(''videoId'', JStr [])]))))) = 400 \<and>
   authenticated_as paid_world
      (request_of (Some ''Bearer session-1'') (Fulfilled (JObj [(''videoId'', JStr [])]))) user_A \<and>
   entitled paid_world user_A"
proof -
  let ?cfg = "module_init process_env_ex"
  let ?empty = "request_of (Some ''Bearer session-1'') (Fulfilled (JObj [(''videoId'', JStr [])]))"
  have a: "unauthenticated paid_world (request_of None (Fulfilled JNull))"
    by (simp add: unauthenticated_def bearer_token_def world_defs)
  have b: "authenticated_as unpaid_world mint_request user_A"
    by (simp add: unpaid_world_def authenticated_ex)
  have c: "absent_or_unpaid unpaid_world user_A"
    by (simp add: absent_or_unpaid_def world_defs)
  have d: "status (response (POST ?cfg paid_world ?empty)) = 400"
    by (simp add: POST_def POST_try_def POST_step3_def POST_step4_def json_error_def
        world_defs Let_def)
  have e: "authenticated_as paid_world ?empty v \<Longrightarrow> v = user_A" for v
    by (simp add: authenticated_as_def bearer_token_def world_defs)
  have f: "(request_of None (Fulfilled JNull))\<lparr>request_json := x\<rparr> = request_of None x" for x
    by (simp add: request_of_def)
  have g: "mint_request\<lparr>request_json := x\<rparr> = request_of (Some ''Bearer session-1'') x" for x
    by (simp add: request_of_def mint_request_def)
  have h: "status (response (POST ?cfg unpaid_world (request_of (Some ''Bearer session-1'') x))) \<noteq> 404" for x
    by (simp add: POST_def POST_try_def POST_step3_def json_error_def world_defs Let_def)
  from authorization_precedes_body [of paid_world "request_of None (Fulfilled JNull)" ?cfg]
  have 1: "\<forall>b. status (response (POST ?cfg paid_world (request_of None b))) = 401"
    using a by (simp add: f)
  from authorization_precedes_body [of unpaid_world mint_request ?cfg user_A]
  have 2: "\<forall>b. status (response (POST ?cfg unpaid_world
      (request_of (Some ''Bearer session-1'') b))) = 403"
    using b c h by (simp add: g)
  from authorization_precedes_body [of paid_world ?empty ?cfg]
  have 3: "\<exists>v. authenticated_as paid_world ?empty v \<and> entitled paid_world v"
    using d by simp
  then have 4: "authenticated_as paid_world ?empty user_A \<and> entitled paid_world user_A"
    using e by blast
  from a b c d 1 2 4 show ?thesis by simp
qed

subsection \<open>A body that cannot be parsed\<close>

text \<open>
  C10. For an authenticated and entitled caller whose request body is absent or is not
  valid JSON (\<open>request.json()\<close> rejects), the answer is not 400: the exception reaches
  the \<open>catch\<close> of the handler, which logs it and answers with status 500 and the
  general message that creating the token failed.
\<close>

theorem unparsable_body_is_500:
  assumes "authenticated_as env req u" and "entitled env u"
    and "request_json req = Rejected x"
  shows "response (POST cfg env req) = json_error msg_token_failed 500 \<and>
         status (response (POST cfg env req)) = 500 \<and>
         status (response (POST cfg env req)) \<noteq> 400 \<and>
         Console_error log_token_error x \<in> set (effects (POST cfg env req))"
  using POST_entitled_cases [OF assms(1,2), of cfg] assms(3)
  by (auto simp: json_error_def)

theorem unparsable_body_is_500_witness:
  "authenticated_as paid_world (request_of (Some ''Bearer session-1'') (Rejected ''SyntaxError'')) user_A \<and>
   entitled paid_world user_A \<and>
   response (POST (module_init process_env_ex) paid_world
     (request_of (Some ''Bearer session-1'') (Rejected ''SyntaxError''))) =
     json_error msg_token_failed 500"
proof -
  have a: "authenticated_as paid_world
      (request_of (Some ''Bearer session-1'') (Rejected ''SyntaxError'')) user_A"
    by (simp add: authenticated_as_def bearer_token_def world_defs)
  have b: "entitled paid_world user_A"
    by (simp add: entitled_def world_defs)
  have c: "request_json (request_of (Some ''Bearer session-1'') (Rejected ''SyntaxError'')) =
      Rejected ''SyntaxError''"
    by (simp add: request_of_def)
  show ?thesis
    using unparsable_body_is_500 [OF a b c, of "module_init process_env_ex"] a b by simp
qed

section \<open>Properties of the video player component\<close>

subsection \<open>Decimal rendering and the payment id\<close>

lemma digit_char_inj:
  assumes "a < 10" and "b < 10" and "digit_char a = digit_char b"
  shows "a = b"
proof -
  from assms(3) have "of_char (char_of (48 + a)) = (of_char (char_of (48 + b)) :: nat)"
    by (simp add: digit_char_def)
  with assms(1,2) show ?thesis by simp
qed

lemma digit_char_not_minus: "d < 10 \<Longrightarrow> digit_char d \<noteq> CHR ''-''"
proof
  assume d: "d < 10" and "digit_char d = CHR ''-''"
  then have "of_char (char_of (48 + d)) = (of_char (CHR ''-'') :: nat)"
    by (simp add: digit_char_def)
  with d show False by simp
qed

lemma string_of_nat_not_Nil: "string_of_nat n \<noteq> []"
  by (subst string_of_nat.simps) simp

lemma string_of_nat_no_minus: "CHR ''-'' \<notin> set (string_of_nat n)"
proof (induction n rule: string_of_nat.induct)
  case (1 n)
  show ?case
  proof (cases "n < 10")
    case True
    then show ?thesis
      using digit_char_not_minus [of n] by (subst string_of_nat.simps) auto
  next
    case False
    have "n mod 10 < 10" by simp
    with False 1 show ?thesis
      using digit_char_not_minus [of "n mod 10"] by (subst string_of_nat.simps) auto
  qed
qed

lemma string_of_nat_inj: "string_of_nat n = string_of_nat m \<Longrightarrow> n = m"
proof (induction n arbitrary: m rule: string_of_nat.induct)
  case (1 n)
  show ?case
  proof (cases "n < 10")
    case n: True
    show ?thesis
    proof (cases "m < 10")
      case True
      with n "1.prems" show ?thesis
        using digit_char_inj [of n m]
        by (simp add: string_of_nat.simps [of n] string_of_nat.simps [of m])
    next
      case False
      with n "1.prems" show ?thesis
        using string_of_nat_not_Nil [of "m div 10"]
        by (simp add: string_of_nat.simps [of n] string_of_nat.simps [of m])
    qed
  next
    case n: False
    show ?thesis
    proof (cases "m < 10")
      case True
      with n "1.prems" show ?thesis
        using string_of_nat_not_Nil [of "n div 10"]
        by (simp add: string_of_nat.simps [of n] string_of_nat.simps [of m])
    next
      case False
      with n "1.prems" have e: "string_of_nat (n div 10) = string_of_nat (m div 10)"
        and d: "digit_char (n mod 10) = digit_char (m mod 10)"
        by (simp_all add: string_of_nat.simps [of n] string_of_nat.simps [of m])
      from "1.IH" [OF n e] have q: "n div 10 = m div 10" .
      from d have r: "n mod 10 = m mod 10"
        using digit_char_inj [of "n mod 10" "m mod 10"] by simp
      from q r show ?thesis
        by (metis div_mult_mod_eq)
    qed
  qed
qed

lemma string_of_int_inj: "string_of_int i = string_of_int j \<Longrightarrow> i = j"
proof -
  assume e: "string_of_int i = string_of_int j"
  have m: "CHR ''-'' # s \<noteq> string_of_nat n" for s n
    using string_of_nat_no_minus [of n] by (metis list.set_intros(1))
  show ?thesis
  proof (cases "i < 0")
    case i: True
    show ?thesis
    proof (cases "j < 0")
      case True
      with i e have "nat (- i) = nat (- j)"
        by (simp add: string_of_int_def string_of_nat_inj)
      with i True show ?thesis by simp
    next
      case False
      with i e m show ?thesis by (simp add: string_of_int_def)
    qed
  next
    case i: False
    show ?thesis
    proof (cases "j < 0")
      case True
      with i e m [of "string_of_nat (nat (- j))" "nat i"] show ?thesis
        by (simp add: string_of_int_def)
    next
      case False
      with i e have "nat i = nat j"
        by (simp add: string_of_int_def string_of_nat_inj)
      with i False show ?thesis by simp
    qed
  qed
qed

lemma make_paymentId_time:
  "make_paymentId c u t = make_paymentId c u t' \<Longrightarrow> t = t'"
  by (simp add: make_paymentId_def string_of_int_inj)

lemma paymentId_example:
  "make_paymentId ''course-7'' ''user-1'' 1700000000123 =
     ''payment-course-7-user-1-1700000000123''"
  by (simp add: make_paymentId_def string_of_int_def string_of_nat.simps digit_char_def
      char_of_def bit_iff_odd)

lemma string_of_int_example: "string_of_int (- 42) = ''-42'' \<and> string_of_int 0 = ''0''"
  by (simp add: string_of_int_def string_of_nat.simps digit_char_def char_of_def bit_iff_odd)

subsection \<open>The texts of the alerts\<close>



lemmas browser_defs =
  browser_def no_row_def paid_row_def course_def user_A_def

subsection \<open>The entitlement state machine\<close>

text \<open>
  C5. In every evaluation of the state machine: when the identity provider answers with
  an error or with no user, the state is \<open>not_logged_in\<close>; when it answers with a
  user and the entitlement lookup answers with an error, with no record, or with a
  record that has not paid, the state is \<open>not_paid\<close>; and the state is \<open>paid\<close> exactly
  when the provider answers with a user and no error and the lookup answers with no
  error and a record that has paid. So no error path ends in \<open>paid\<close>.
\<close>

theorem entitlement_machine_fail_closed:
  "(\<forall>ur. client_getUser env = Fulfilled ur \<and> rejects ur \<longrightarrow> evaluate env = Not_logged_in) \<and>
   (\<forall>ur u pr. client_getUser env = Fulfilled ur \<and> user_error ur = None \<and>
        data_user ur = Some u \<and> client_profiles_select env (uid u) = Fulfilled pr \<and>
        (profile_error pr \<noteq> None \<or> data_profile pr = None \<or>
         (\<exists>p. data_profile pr = Some p \<and> \<not> has_paid p)) \<longrightarrow>
      evaluate env = Not_paid) \<and>
   ((evaluate env = Paid) =
      (\<exists>ur u pr p. client_getUser env = Fulfilled ur \<and> user_error ur = None \<and>
         data_user ur = Some u \<and> client_profiles_select env (uid u) = Fulfilled pr \<and>
         profile_error pr = None \<and> data_profile pr = Some p \<and> has_paid p))"
  by (auto simp: evaluate_def checkAuth_def rejects_def
      split: promise.splits option.splits)

theorem entitlement_machine_fail_closed_witness:
  "evaluate (browser no_row (Fulfilled None) (Fulfilled None)) = Not_paid \<and>
   evaluate (browser paid_row (Fulfilled None) (Fulfilled None)) = Paid \<and>
   evaluate ((browser paid_row (Fulfilled None) (Fulfilled None))
     \<lparr> client_getUser := Fulfilled \<lparr> data_user = None, user_error = Some ''no session'' \<rparr> \<rparr>) =
     Not_logged_in"
proof -
  let ?a = "browser no_row (Fulfilled None) (Fulfilled None)"
  let ?b = "browser paid_row (Fulfilled None) (Fulfilled None)"
  let ?c = "?b\<lparr> client_getUser := Fulfilled \<lparr> data_user = None, user_error = Some ''no session'' \<rparr> \<rparr>"
  have a: "client_getUser ?a = Fulfilled \<lparr> data_user = Some user_A, user_error = None \<rparr> \<and>
      client_profiles_select ?a (uid user_A) =
        Fulfilled \<lparr> data_profile = None, profile_error = Some ''PGRST116'' \<rparr>"
    by (simp add: browser_defs)
  have b: "client_getUser ?b = Fulfilled \<lparr> data_user = Some user_A, user_error = None \<rparr> \<and>
      client_profiles_select ?b (uid user_A) =
        Fulfilled \<lparr> data_profile = Some \<lparr> has_paid = True \<rparr>, profile_error = None \<rparr>"
    by (simp add: browser_defs)
  have c: "client_getUser ?c = Fulfilled \<lparr> data_user = None, user_error = Some ''no session'' \<rparr> \<and>
      rejects \<lparr> data_user = None, user_error = Some ''no session'' \<rparr>"
    by (simp add: browser_defs rejects_def)
  from entitlement_machine_fail_closed [of ?a] a
  have 1: "evaluate ?a = Not_paid" by simp
  from entitlement_machine_fail_closed [of ?b] b
  have 2: "evaluate ?b = Paid" by simp
  from entitlement_machine_fail_closed [of ?c] c
  have 3: "evaluate ?c = Not_logged_in" by blast
  from 1 2 3 show ?thesis by simp
qed

subsection \<open>A charge that the gateway refuses\<close>

text \<open>
  The claim C6 takes every answer with a non-null code for a failure. The handler tests
  the code for truthiness, so the claim does not hold for the empty code: the handler
  goes on, upserts the row and announces that the payment is complete.
\<close>

theorem refused_charge_counterexample:
  "code \<lparr> code = Some [], message = Some ''cancelled'' \<rparr> \<noteq> None \<and>
   handlePayment course
     (browser no_row (Fulfilled (Some \<lparr> code = Some [], message = Some ''cancelled'' \<rparr>))
        (Fulfilled None)) =
     [Set_isProcessing True, Call_client_getUser,
      Call_requestPayment (payment_request_of course
        (browser no_row (Fulfilled (Some \<lparr> code = Some [], message = Some ''cancelled'' \<rparr>))
           (Fulfilled None)) user_A),
      Call_upsert \<lparr> row_id = ''user-1'', row_has_paid = True \<rparr> ''id'',
      Alert msg_payment_done, Reload]"
  by (simp add: handlePayment_def handlePayment_try_def handlePayment_record_def
      truthy_string_def browser_defs Let_def)

text \<open>
  C6, as the handler has it. When the gateway answers with a non-empty code, the handler
  alerts the failure text followed by the gateway's message, ends the processing state
  and does nothing else: no upsert is among its effects. The payment id of another
  attempt for the same course and user differs whenever the clock reads a different
  millisecond.
\<close>

theorem refused_charge_writes_nothing:
  assumes "client_getUser env = Fulfilled ur" and "data_user ur = Some u"
    and "requestPayment env (payment_request_of ps env u) = Fulfilled (Some resp)"
    and "code resp = Some c" and "c \<noteq> []"
  shows "handlePayment ps env =
           [Set_isProcessing True, Call_client_getUser,
            Call_requestPayment (payment_request_of ps env u),
            Alert (msg_payment_failed_prefix @ template_string (message resp)),
            Set_isProcessing False] \<and>
         filter is_upsert (handlePayment ps env) = [] \<and>
         (\<forall>env'. client_Date_now env' \<noteq> client_Date_now env \<longrightarrow>
            paymentId (payment_request_of ps env' u) \<noteq> paymentId (payment_request_of ps env u))"
proof -
  have h: "handlePayment ps env =
           [Set_isProcessing True, Call_client_getUser,
            Call_requestPayment (payment_request_of ps env u),
            Alert (msg_payment_failed_prefix @ template_string (message resp)),
            Set_isProcessing False]"
    using assms
    by (simp add: handlePayment_def handlePayment_try_def truthy_string_def Let_def)
  have p: "paymentId (payment_request_of ps env' u) \<noteq> paymentId (payment_request_of ps env u)"
    if "client_Date_now env' \<noteq> client_Date_now env" for env'
    using that make_paymentId_time [of "courseId ps" "uid u" "client_Date_now env'" "client_Date_now env"]
    by (auto simp: payment_request_of_def)
  from h p show ?thesis by simp
qed

theorem refused_charge_writes_nothing_witness:
  "handlePayment course
     (browser no_row
        (Fulfilled (Some \<lparr> code = Some ''FAILURE_TYPE_PG'', message = Some ''cancelled'' \<rparr>))
        (Fulfilled None)) =
     [Set_isProcessing True, Call_client_getUser,
      Call_requestPayment (payment_request_of course
        (browser no_row
           (Fulfilled (Some \<lparr> code = Some ''FAILURE_TYPE_PG'', message = Some ''cancelled'' \<rparr>))
           (Fulfilled None)) user_A),
      Alert (msg_payment_failed_prefix @ ''cancelled''),
      Set_isProcessing False] \<and>
   paymentId (payment_request_of course
     ((browser no_row (Fulfilled None) (Fulfilled None))\<lparr> client_Date_now := 1700000060000 \<rparr>)
     user_A) \<noteq>
   paymentId (payment_request_of course
     (browser no_row
        (Fulfilled (Some \<lparr> code = Some ''FAILURE_TYPE_PG'', message = Some ''cancelled'' \<rparr>))
        (Fulfilled None)) user_A)"
proof -
  let ?resp = "\<lparr> code = Some ''FAILURE_TYPE_PG'', message = Some ''cancelled'' \<rparr>"
  let ?env = "browser no_row (Fulfilled (Some ?resp)) (Fulfilled None)"
  let ?env' = "(browser no_row (Fulfilled None) (Fulfilled None))\<lparr> client_Date_now := 1700000060000 \<rparr>"
  have a: "client_getUser ?env = Fulfilled \<lparr> data_user = Some user_A, user_error = None \<rparr>"
    by (simp add: browser_def)
  have b: "data_user \<lparr> data_user = Some user_A, user_error = None \<rparr> = Some user_A"
    by simp
  have c: "requestPayment ?env (payment_request_of course ?env user_A) = Fulfilled (Some ?resp)"
    by (simp add: browser_def)
  have d: "code ?resp = Some ''FAILURE_TYPE_PG''" and e: "''FAILURE_TYPE_PG'' \<noteq> []"
    by simp_all
  have f: "client_Date_now ?env' \<noteq> client_Date_now ?env"
    by (simp add: browser_def)
  from refused_charge_writes_nothing [OF a b c d e, of ] f show ?thesis
    by (simp add: template_string_def)
qed

subsection \<open>A charge that went through and an upsert that failed\<close>




end
